theory Spec2Isabelle
  imports Complex_Main
begin

section \<open>Python primitives used by clothing\_ai.py\<close>

text \<open>
  Strings are lists of characters; the texts handled here are ASCII. Exceptions are
  values: a function that can raise returns \<open>py_error + 'a\<close>, with \<open>Inl\<close> the
  exception. Python floats that are quotients of small counters are modelled as exact
  rationals.
\<close>

datatype py_error = IndexError | ValueError | ZeroDivisionError

text \<open>\<open>str.lower()\<close> on ASCII text: the letters A to Z are moved to a to z.\<close>

definition lower_char :: "char \<Rightarrow> char" where
  "lower_char c =
     (if 65 \<le> (of_char c :: nat) \<and> (of_char c :: nat) \<le> 90
      then char_of ((of_char c :: nat) + 32) else c)"

definition lower :: "string \<Rightarrow> string" where
  "lower s = map lower_char s"

text \<open>\<open>s.startswith(k)\<close> and the substring test \<open>k in s\<close>.\<close>

fun startswith :: "string \<Rightarrow> string \<Rightarrow> bool" where
  "startswith s [] = True"
| "startswith [] (k # ks) = False"
| "startswith (c # cs) (k # ks) = (c = k \<and> startswith cs ks)"

fun str_in :: "string \<Rightarrow> string \<Rightarrow> bool" where
  "str_in k [] = (k = [])"
| "str_in k (c # cs) = (if startswith (c # cs) k then True else str_in k cs)"

text \<open>\<open>any(keyword in text for keyword in keywords)\<close>.\<close>

definition any_in :: "string list \<Rightarrow> string \<Rightarrow> bool" where
  "any_in keywords s = list_ex (\<lambda>keyword. str_in keyword s) keywords"

text \<open>
  \<open>str.split()\<close> with no argument: the maximal runs of non-whitespace characters.
  The ASCII whitespace of Python's \<open>str\<close> is tab, line feed, vertical tab, form feed,
  carriage return, the four separators 28 to 31, and the space.
\<close>

definition is_space :: "char \<Rightarrow> bool" where
  "is_space c =
     (let n = (of_char c :: nat) in if 9 \<le> n \<and> n \<le> 13 then True
      else if 28 \<le> n \<and> n \<le> 32 then True else False)"

fun split_acc :: "string \<Rightarrow> string \<Rightarrow> string list" where
  "split_acc cur [] = (if cur = [] then [] else [cur])"
| "split_acc cur (c # cs) =
     (if is_space c then (if cur = [] then split_acc [] cs else cur # split_acc [] cs)
      else split_acc (cur @ [c]) cs)"

definition split :: "string \<Rightarrow> string list" where
  "split s = split_acc [] s"

text \<open>\<open>sep.join(parts)\<close>.\<close>

fun join :: "string \<Rightarrow> string list \<Rightarrow> string" where
  "join sep [] = []"
| "join sep [p] = p"
| "join sep (p # q # ps) = p @ sep @ join sep (q # ps)"

text \<open>True division \<open>a / b\<close> of two integers: raises when \<open>b\<close> is zero.\<close>

definition truediv :: "int \<Rightarrow> int \<Rightarrow> py_error + rat" where
  "truediv a b = (if b = 0 then Inl ZeroDivisionError else Inr (of_int a / of_int b))"

section \<open>Taxonomy\<close>

datatype ClothingType =
  HOODIE | T_SHIRT | JEANS | SHORTS | JACKET | SWEATER | DRESS | SKIRT | PANTS
  | SNEAKERS | BOOTS | SANDALS

datatype Style = CASUAL | FORMAL | SPORTY | TRENDY | VINTAGE | MINIMALIST

datatype WeatherType = HOT | WARM | MILD | COOL | COLD | RAINY | SNOWY

fun ClothingType_value :: "ClothingType \<Rightarrow> string" where
  "ClothingType_value HOODIE = ''hoodie''"
| "ClothingType_value T_SHIRT = ''t-shirt''"
| "ClothingType_value JEANS = ''jeans''"
| "ClothingType_value SHORTS = ''shorts''"
| "ClothingType_value JACKET = ''jacket''"
| "ClothingType_value SWEATER = ''sweater''"
| "ClothingType_value DRESS = ''dress''"
| "ClothingType_value SKIRT = ''skirt''"
| "ClothingType_value PANTS = ''pants''"
| "ClothingType_value SNEAKERS = ''sneakers''"
| "ClothingType_value BOOTS = ''boots''"
| "ClothingType_value SANDALS = ''sandals''"

fun Style_value :: "Style \<Rightarrow> string" where
  "Style_value CASUAL = ''casual''"
| "Style_value FORMAL = ''formal''"
| "Style_value SPORTY = ''sporty''"
| "Style_value TRENDY = ''trendy''"
| "Style_value VINTAGE = ''vintage''"
| "Style_value MINIMALIST = ''minimalist''"

fun WeatherType_value :: "WeatherType \<Rightarrow> string" where
  "WeatherType_value HOT = ''hot''"
| "WeatherType_value WARM = ''warm''"
| "WeatherType_value MILD = ''mild''"
| "WeatherType_value COOL = ''cool''"
| "WeatherType_value COLD = ''cold''"
| "WeatherType_value RAINY = ''rainy''"
| "WeatherType_value SNOWY = ''snowy''"

text \<open>
  The enum's members in declaration order, and the lookup by value \<open>WeatherType(s)\<close>:
  \<open>None\<close> stands for the \<open>ValueError\<close> the lookup raises on a string that is no
  member's value.
\<close>

definition WeatherType_members :: "WeatherType list" where
  "WeatherType_members = [HOT, WARM, MILD, COOL, COLD, RAINY, SNOWY]"

definition WeatherType_call :: "string \<Rightarrow> WeatherType option" where
  "WeatherType_call s = find (\<lambda>w. WeatherType_value w = s) WeatherType_members"

record ClothingItem =
  name :: string
  type :: ClothingType
  style :: Style
  weather_suitability :: "WeatherType list"
  color :: string
  season :: "string list"
  formality_level :: int
  warmth_rating :: int

section \<open>ClothingLabeler\<close>

text \<open>The keyword dictionaries, as association lists in insertion order.\<close>

definition clothing_keywords :: "(ClothingType \<times> string list) list" where
  "clothing_keywords =
    [(HOODIE, [''hoodie'', ''hooded'', ''pullover'']),
     (T_SHIRT, [''t-shirt'', ''tee'', ''shirt'', ''top'']),
     (JEANS, [''jeans'', ''denim'']),
     (SHORTS, [''shorts'', ''short pants'']),
     (JACKET, [''jacket'', ''blazer'', ''coat'']),
     (SWEATER, [''sweater'', ''jumper'', ''cardigan'']),
     (DRESS, [''dress'', ''gown'']),
     (SKIRT, [''skirt'', ''mini'', ''maxi'']),
     (PANTS, [''pants'', ''trousers'', ''slacks'']),
     (SNEAKERS, [''sneakers'', ''trainers'', ''athletic shoes'']),
     (BOOTS, [''boots'', ''ankle boots'', ''hiking boots'']),
     (SANDALS, [''sandals'', ''flip flops'', ''slides''])]"

definition style_keywords :: "(Style \<times> string list) list" where
  "style_keywords =
    [(CASUAL, [''casual'', ''relaxed'', ''comfortable'', ''everyday'']),
     (FORMAL, [''formal'', ''business'', ''professional'', ''elegant'']),
     (SPORTY, [''sporty'', ''athletic'', ''active'', ''gym'']),
     (TRENDY, [''trendy'', ''fashionable'', ''stylish'', ''modern'']),
     (VINTAGE, [''vintage'', ''retro'', ''classic'', ''old-school'']),
     (MINIMALIST, [''minimalist'', ''simple'', ''clean'', ''basic''])]"

text \<open>
  The loop of \<open>label_clothing_from_text\<close> that stops at the first entry with a
  keyword in the text (\<open>break\<close>), and the loops that collect every such entry.
\<close>

fun first_match :: "('a \<times> string list) list \<Rightarrow> string \<Rightarrow> 'a option" where
  "first_match [] s = None"
| "first_match ((k, keywords) # rest) s =
     (if any_in keywords s then Some k else first_match rest s)"

fun all_matches :: "('a \<times> string list) list \<Rightarrow> string \<Rightarrow> 'a list" where
  "all_matches [] s = []"
| "all_matches ((k, keywords) # rest) s =
     (if any_in keywords s then k # all_matches rest s else all_matches rest s)"

definition weather_keywords :: "(WeatherType \<times> string list) list" where
  "weather_keywords =
    [(HOT, [''summer'', ''hot'', ''breathable'', ''light'', ''cooling'']),
     (WARM, [''warm'', ''spring'', ''light'']),
     (MILD, [''mild'', ''transitional'', ''layering'']),
     (COOL, [''cool'', ''fall'', ''autumn'', ''light jacket'']),
     (COLD, [''winter'', ''cold'', ''thick'', ''insulated'', ''warm'']),
     (RAINY, [''waterproof'', ''rain'', ''water-resistant'']),
     (SNOWY, [''snow'', ''insulated'', ''thermal'', ''heavy''])]"

definition predict_weather_suitability :: "string \<Rightarrow> WeatherType list" where
  "predict_weather_suitability description =
     (let suitable_weather = all_matches weather_keywords description
      in if suitable_weather = [] then
           (if any_in [''hoodie'', ''sweater'', ''jacket''] description then [COOL, COLD]
            else if any_in [''t-shirt'', ''shorts'', ''sandals''] description then [HOT, WARM]
            else [MILD])
         else suitable_weather)"

definition formal_keywords :: "string list" where
  "formal_keywords = [''formal'', ''business'', ''professional'', ''suit'', ''dress shirt'']"

definition casual_keywords :: "string list" where
  "casual_keywords = [''casual'', ''relaxed'', ''hoodie'', ''jeans'', ''t-shirt'']"

text \<open>\<open>sum(1 for keyword in keywords if keyword in description)\<close>.\<close>

definition count_hits :: "string list \<Rightarrow> string \<Rightarrow> int" where
  "count_hits keywords description =
     int (length (filter (\<lambda>keyword. str_in keyword description) keywords))"

definition predict_formality :: "string \<Rightarrow> int" where
  "predict_formality description =
     (let formal_score = count_hits formal_keywords description;
          casual_score = count_hits casual_keywords description
      in if formal_score > casual_score then min (7 + formal_score) 10
         else if casual_score > formal_score then max (3 - casual_score) 1
         else 5)"

definition warm_keywords :: "string list" where
  "warm_keywords = [''thick'', ''insulated'', ''wool'', ''fleece'', ''down'', ''winter'']"

definition cool_keywords :: "string list" where
  "cool_keywords = [''light'', ''breathable'', ''cotton'', ''linen'', ''summer'']"

definition predict_warmth :: "string \<Rightarrow> int" where
  "predict_warmth description =
     (let warm_score = count_hits warm_keywords description;
          cool_score = count_hits cool_keywords description;
          base_warmth = 5
      in max 1 (min 10 (base_warmth + warm_score - cool_score)))"

definition all_keywords :: "string list" where
  "all_keywords = concat (map snd clothing_keywords) @ concat (map snd style_keywords)"

definition calculate_confidence :: "string \<Rightarrow> py_error + rat" where
  "calculate_confidence description =
     (let total_keywords = int (length (split description));
          matched_keywords = int (length (filter (\<lambda>word. word \<in> set all_keywords) (split description)))
      in case truediv matched_keywords (max 1 total_keywords) of
           Inl e \<Rightarrow> Inl e
         | Inr q \<Rightarrow> Inr (min 1 (q * 2)))"

record Labels =
  l_type :: string
  l_styles :: "string list"
  l_weather_suitability :: "string list"
  l_formality_level :: int
  l_warmth_rating :: int
  l_confidence :: rat

definition label_clothing_from_text :: "string \<Rightarrow> py_error + Labels" where
  "label_clothing_from_text description =
     (let description_lower = lower description;
          detected_type = first_match clothing_keywords description_lower;
          detected_styles = all_matches style_keywords description_lower;
          weather_suitability' = predict_weather_suitability description_lower;
          formality = predict_formality description_lower;
          warmth = predict_warmth description_lower
      in case calculate_confidence description_lower of
           Inl e \<Rightarrow> Inl e
         | Inr conf \<Rightarrow>
             Inr \<lparr>l_type = (case detected_type of Some t \<Rightarrow> ClothingType_value t | None \<Rightarrow> ''unknown''),
                  l_styles = map Style_value detected_styles,
                  l_weather_suitability = map WeatherType_value weather_suitability',
                  l_formality_level = formality,
                  l_warmth_rating = warmth,
                  l_confidence = conf\<rparr>)"

section \<open>OutfitSuggestionEngine\<close>

text \<open>
  The module \<open>random\<close> is modelled by the sequence of draws still to come: a random
  source is a function from positions to natural numbers, and a draw takes the value at
  position 0 and shifts the rest. \<open>random.choice(seq)\<close> raises \<open>IndexError\<close> on an
  empty sequence and otherwise returns the element at an index below \<open>len(seq)\<close>; every
  index is reached by some source. A computation that draws takes the source and returns
  an exception, or its result with the remaining source.
\<close>

type_synonym rng = "nat \<Rightarrow> nat"

type_synonym 'a rand = "rng \<Rightarrow> py_error + ('a \<times> rng)"

definition rreturn :: "'a \<Rightarrow> 'a rand" where
  "rreturn x r = Inr (x, r)"

definition rbind :: "'a rand \<Rightarrow> ('a \<Rightarrow> 'b rand) \<Rightarrow> 'b rand" where
  "rbind m f r = (case m r of Inl e \<Rightarrow> Inl e | Inr (x, r') \<Rightarrow> f x r')"

definition random_choice :: "'a list \<Rightarrow> 'a rand" where
  "random_choice seq r =
     (if seq = [] then Inl IndexError
      else Inr (seq ! (r 0 mod length seq), \<lambda>n. r (Suc n)))"

text \<open>\<open>outfit.append(random.choice(seq))\<close>, returning the extended outfit.\<close>

definition append_choice :: "'a list \<Rightarrow> 'a list \<Rightarrow> 'a list rand" where
  "append_choice outfit seq = rbind (random_choice seq) (\<lambda>x. rreturn (outfit @ [x]))"

text \<open>The wardrobe a new engine starts with.\<close>

definition initialize_sample_wardrobe :: "ClothingItem list" where
  "initialize_sample_wardrobe =
    [\<lparr>name = ''Basic White Tee'', type = T_SHIRT, style = CASUAL,
      weather_suitability = [HOT, WARM], color = ''white'', season = [''spring'', ''summer''],
      formality_level = 3, warmth_rating = 2\<rparr>,
     \<lparr>name = ''Gray Hoodie'', type = HOODIE, style = CASUAL,
      weather_suitability = [COOL, COLD], color = ''gray'', season = [''fall'', ''winter''],
      formality_level = 2, warmth_rating = 7\<rparr>,
     \<lparr>name = ''Blue Jeans'', type = JEANS, style = CASUAL,
      weather_suitability = [MILD, COOL], color = ''blue'', season = [''all''],
      formality_level = 4, warmth_rating = 5\<rparr>,
     \<lparr>name = ''Summer Dress'', type = DRESS, style = CASUAL,
      weather_suitability = [HOT, WARM], color = ''floral'', season = [''spring'', ''summer''],
      formality_level = 6, warmth_rating = 2\<rparr>,
     \<lparr>name = ''White Sneakers'', type = SNEAKERS, style = CASUAL,
      weather_suitability = [MILD, WARM, HOT], color = ''white'', season = [''all''],
      formality_level = 3, warmth_rating = 4\<rparr>,
     \<lparr>name = ''Navy Blazer'', type = JACKET, style = FORMAL,
      weather_suitability = [MILD, COOL], color = ''navy'', season = [''all''],
      formality_level = 9, warmth_rating = 5\<rparr>,
     \<lparr>name = ''White Dress Shirt'', type = T_SHIRT, style = FORMAL,
      weather_suitability = [MILD, COOL, WARM], color = ''white'', season = [''all''],
      formality_level = 8, warmth_rating = 3\<rparr>,
     \<lparr>name = ''Black Dress Pants'', type = PANTS, style = FORMAL,
      weather_suitability = [MILD, COOL], color = ''black'', season = [''all''],
      formality_level = 8, warmth_rating = 4\<rparr>,
     \<lparr>name = ''Black Oxford Shoes'', type = BOOTS, style = FORMAL,
      weather_suitability = [MILD, COOL], color = ''black'', season = [''all''],
      formality_level = 9, warmth_rating = 3\<rparr>,
     \<lparr>name = ''Leather Jacket'', type = JACKET, style = TRENDY,
      weather_suitability = [COOL], color = ''black'', season = [''fall'', ''spring''],
      formality_level = 7, warmth_rating = 6\<rparr>,
     \<lparr>name = ''Skinny Black Jeans'', type = JEANS, style = TRENDY,
      weather_suitability = [MILD, COOL], color = ''black'', season = [''all''],
      formality_level = 6, warmth_rating = 4\<rparr>,
     \<lparr>name = ''Winter Boots'', type = BOOTS, style = CASUAL,
      weather_suitability = [COLD, SNOWY], color = ''brown'', season = [''winter''],
      formality_level = 4, warmth_rating = 8\<rparr>,
     \<lparr>name = ''Rain Jacket'', type = JACKET, style = CASUAL,
      weather_suitability = [RAINY, COOL], color = ''navy'', season = [''all''],
      formality_level = 4, warmth_rating = 6\<rparr>,
     \<lparr>name = ''Cotton Shorts'', type = SHORTS, style = CASUAL,
      weather_suitability = [HOT, WARM], color = ''khaki'', season = [''summer''],
      formality_level = 3, warmth_rating = 1\<rparr>,
     \<lparr>name = ''Wool Sweater'', type = SWEATER, style = CASUAL,
      weather_suitability = [COLD, COOL], color = ''gray'', season = [''winter'', ''fall''],
      formality_level = 5, warmth_rating = 8\<rparr>,
     \<lparr>name = ''Waterproof Boots'', type = BOOTS, style = CASUAL,
      weather_suitability = [RAINY, COLD], color = ''black'', season = [''all''],
      formality_level = 4, warmth_rating = 7\<rparr>]"

text \<open>
  A vibe rule is a dictionary in which every key is optional: a field is \<open>None\<close> when
  the key is absent. The empty rule is the \<open>{}\<close> that \<open>.get(vibe, {})\<close> returns for a
  vibe without an entry.
\<close>

record VibeRule =
  preferred_styles :: "Style list option"
  avoid_styles :: "Style list option"
  min_formality :: "int option"
  max_formality :: "int option"
  preferred_types :: "ClothingType list option"
  avoid_types :: "ClothingType list option"

definition empty_rule :: VibeRule where
  "empty_rule = \<lparr>preferred_styles = None, avoid_styles = None, min_formality = None,
     max_formality = None, preferred_types = None, avoid_types = None\<rparr>"

definition vibe_rules_table :: "(string \<times> VibeRule) list" where
  "vibe_rules_table =
    [(''casual'', \<lparr>preferred_styles = Some [CASUAL], avoid_styles = None, min_formality = None,
        max_formality = Some 6, preferred_types = None, avoid_types = Some []\<rparr>),
     (''professional'', \<lparr>preferred_styles = Some [FORMAL], avoid_styles = None,
        min_formality = Some 7, max_formality = None,
        preferred_types = Some [JACKET, PANTS, T_SHIRT], avoid_types = Some [HOODIE, SHORTS]\<rparr>),
     (''business'', \<lparr>preferred_styles = Some [FORMAL], avoid_styles = None,
        min_formality = Some 8, max_formality = None,
        preferred_types = Some [JACKET, PANTS, T_SHIRT],
        avoid_types = Some [HOODIE, SHORTS, JEANS]\<rparr>),
     (''trendy'', \<lparr>preferred_styles = Some [TRENDY], avoid_styles = Some [VINTAGE],
        min_formality = Some 5, max_formality = None, preferred_types = None,
        avoid_types = None\<rparr>),
     (''sporty'', \<lparr>preferred_styles = Some [SPORTY, CASUAL], avoid_styles = None,
        min_formality = None, max_formality = Some 4, preferred_types = None,
        avoid_types = None\<rparr>)]"

definition filter_items_by_weather :: "ClothingItem list \<Rightarrow> WeatherType \<Rightarrow> ClothingItem list" where
  "filter_items_by_weather wardrobe weather =
     filter (\<lambda>item. weather \<in> set (weather_suitability item)) wardrobe"

text \<open>
  The body of the first loop of \<open>_filter_items_by_vibe\<close>: \<open>False\<close> where the loop
  reaches a \<open>continue\<close>, \<open>True\<close> where it appends the item.
\<close>

definition passes_vibe_rules :: "VibeRule \<Rightarrow> ClothingItem \<Rightarrow> bool" where
  "passes_vibe_rules vibe_rules item =
     (if (case min_formality vibe_rules of None \<Rightarrow> False | Some m \<Rightarrow> formality_level item < m)
      then False
      else if (case max_formality vibe_rules of None \<Rightarrow> False | Some m \<Rightarrow> formality_level item > m)
      then False
      else if (case avoid_types vibe_rules of None \<Rightarrow> False | Some ts \<Rightarrow> type item \<in> set ts)
      then False
      else if (case preferred_styles vibe_rules of None \<Rightarrow> False
               | Some ps \<Rightarrow> (if length ps > 0 then style item \<notin> set ps else False))
      then False
      else if (case avoid_styles vibe_rules of None \<Rightarrow> False | Some ss \<Rightarrow> style item \<in> set ss)
      then False
      else True)"

definition lookup_vibe_rules :: "string \<Rightarrow> VibeRule" where
  "lookup_vibe_rules vibe =
     (case map_of vibe_rules_table vibe of None \<Rightarrow> empty_rule | Some vibe_rules \<Rightarrow> vibe_rules)"

definition filter_items_by_vibe :: "ClothingItem list \<Rightarrow> string \<Rightarrow> ClothingItem list" where
  "filter_items_by_vibe items vibe =
     (let vibe_rules = lookup_vibe_rules vibe;
          filtered_items = filter (passes_vibe_rules vibe_rules) items;
          filtered_items' =
            (if filtered_items = [] \<and> vibe \<in> set [''professional'', ''business'']
             then filtered_items @ filter (\<lambda>item. formality_level item \<ge> 6) items
             else filtered_items)
      in if filtered_items' \<noteq> [] then filtered_items' else items)"

text \<open>
  \<open>_create_outfit_combination\<close>, in the three steps of its body: the top layer (a
  dress, or a top and a bottom), the shoes, the outerwear. Each step takes the outfit
  built so far. The conditions keep Python's short-circuit order, so a coin is drawn
  only where the source reaches \<open>random.choice([True, False])\<close>.
\<close>

definition is_formal :: "ClothingItem \<Rightarrow> bool" where
  "is_formal item = (formality_level item \<ge> 7)"

definition choose_top_layer :: "ClothingItem list \<Rightarrow> ClothingItem list \<Rightarrow> ClothingItem list rand" where
  "choose_top_layer items outfit =
     (let tops = filter (\<lambda>item. type item \<in> set [T_SHIRT, HOODIE, SWEATER]) items;
          bottoms = filter (\<lambda>item. type item \<in> set [JEANS, SHORTS, PANTS]) items;
          dresses = filter (\<lambda>item. type item = DRESS) items;
          formal_items = filter is_formal items;
          has_formal_items = (length formal_items > 0)
      in rbind (if dresses \<noteq> [] then
                  (if \<not> has_formal_items then rreturn True else random_choice [True, False])
                else rreturn False)
           (\<lambda>take_dress.
              if take_dress then append_choice outfit dresses
              else if has_formal_items then
                (let formal_tops = filter is_formal tops;
                     formal_bottoms = filter is_formal bottoms
                 in rbind (if formal_tops \<noteq> [] then append_choice outfit formal_tops
                           else if tops \<noteq> [] then append_choice outfit tops
                           else rreturn outfit)
                      (\<lambda>outfit'.
                         if formal_bottoms \<noteq> [] then append_choice outfit' formal_bottoms
                         else if bottoms \<noteq> [] then append_choice outfit' bottoms
                         else rreturn outfit'))
              else
                rbind (if tops \<noteq> [] then append_choice outfit tops else rreturn outfit)
                  (\<lambda>outfit'.
                     if bottoms \<noteq> [] then append_choice outfit' bottoms else rreturn outfit')))"

definition choose_shoes :: "ClothingItem list \<Rightarrow> ClothingItem list \<Rightarrow> ClothingItem list rand" where
  "choose_shoes items outfit =
     (let shoes = filter (\<lambda>item. type item \<in> set [SNEAKERS, BOOTS, SANDALS]) items;
          has_formal_items = (length (filter is_formal items) > 0)
      in if shoes \<noteq> [] then
           (if has_formal_items then
              (let formal_shoes = filter is_formal shoes
               in if formal_shoes \<noteq> [] then append_choice outfit formal_shoes
                  else append_choice outfit shoes)
            else append_choice outfit shoes)
         else rreturn outfit)"

definition choose_outerwear :: "ClothingItem list \<Rightarrow> ClothingItem list \<Rightarrow> ClothingItem list rand" where
  "choose_outerwear items outfit =
     (let outerwear = filter (\<lambda>item. type item = JACKET) items;
          has_formal_items = (length (filter is_formal items) > 0)
      in if outerwear \<noteq> [] then
           (let weather_needs_outerwear =
                  list_ex (\<lambda>item. type item \<in> set [JACKET] \<and>
                             list_ex (\<lambda>weather. weather \<in> set (weather_suitability item)) [COLD, RAINY])
                    outerwear;
                formal_needs_outerwear = (has_formal_items \<and> list_ex is_formal outerwear)
            in rbind (if weather_needs_outerwear then rreturn True
                      else if formal_needs_outerwear then rreturn True
                      else random_choice [True, False])
                 (\<lambda>add_outerwear.
                    if add_outerwear then
                      (if has_formal_items then
                         (let formal_outerwear = filter is_formal outerwear
                          in if formal_outerwear \<noteq> [] then append_choice outfit formal_outerwear
                             else append_choice outfit outerwear)
                       else append_choice outfit outerwear)
                    else rreturn outfit))
         else rreturn outfit)"

definition create_outfit_combination :: "ClothingItem list \<Rightarrow> ClothingItem list rand" where
  "create_outfit_combination items =
     rbind (choose_top_layer items [])
       (\<lambda>outfit. rbind (choose_shoes items outfit)
          (\<lambda>outfit'. choose_outerwear items outfit'))"

definition generate_outfit_reasoning :: "ClothingItem list \<Rightarrow> string \<Rightarrow> string \<Rightarrow> string" where
  "generate_outfit_reasoning outfit weather vibe =
     (let reasons = map (\<lambda>item. name item @ '' is perfect for '' @ weather @ '' weather'') outfit
                    @ [''This combination matches your '' @ vibe @ '' vibe'']
      in join ''. '' reasons @ ''.'')"

definition calculate_outfit_confidence :: "ClothingItem list \<Rightarrow> WeatherType \<Rightarrow> string \<Rightarrow> py_error + rat" where
  "calculate_outfit_confidence outfit weather vibe =
     (if outfit = [] then Inr 0
      else truediv (int (length (filter (\<lambda>item. weather \<in> set (weather_suitability item)) outfit)))
             (int (length outfit)))"

record ItemDetails =
  d_name :: string
  d_type :: string
  d_style :: string
  d_color :: string

record Suggestion =
  s_outfit :: "string list"
  s_items_details :: "ItemDetails list"
  s_reasoning :: string
  s_weather :: string
  s_vibe :: string
  s_confidence :: rat

text \<open>Lines 323 to 326: the lookup of the weather band, with its \<open>except ValueError\<close>.\<close>

definition weather_enum_of :: "string \<Rightarrow> WeatherType" where
  "weather_enum_of weather =
     (case WeatherType_call (lower weather) of None \<Rightarrow> MILD | Some w \<Rightarrow> w)"

definition item_details :: "ClothingItem \<Rightarrow> ItemDetails" where
  "item_details item =
     \<lparr>d_name = name item, d_type = ClothingType_value (type item),
      d_style = Style_value (style item), d_color = color item\<rparr>"

text \<open>
  \<open>suggest_outfit\<close>, with the engine's wardrobe as a parameter (\<open>add_clothing_item\<close>
  appends to it, so it is not always the sample wardrobe).
\<close>

definition suggest_outfit :: "ClothingItem list \<Rightarrow> string \<Rightarrow> string \<Rightarrow> string \<Rightarrow> Suggestion rand" where
  "suggest_outfit wardrobe weather vibe occasion =
     (let weather_enum = weather_enum_of weather;
          suitable_items = filter_items_by_weather wardrobe weather_enum;
          suitable_items' = filter_items_by_vibe suitable_items (lower vibe)
      in rbind (create_outfit_combination suitable_items')
           (\<lambda>outfit r.
              let reasoning = generate_outfit_reasoning outfit weather vibe
              in case calculate_outfit_confidence outfit weather_enum vibe of
                   Inl e \<Rightarrow> Inl e
                 | Inr conf \<Rightarrow>
                     Inr (\<lparr>s_outfit = map name outfit,
                           s_items_details = map item_details outfit,
                           s_reasoning = reasoning,
                           s_weather = weather,
                           s_vibe = vibe,
                           s_confidence = conf\<rparr>, r)))"

section \<open>Request parsing\<close>

text \<open>The three keyword scans of \<open>HuggingFaceIntegration\<close>.\<close>

definition extract_weather_from_text :: "string \<Rightarrow> string" where
  "extract_weather_from_text txt =
     (case first_match
        [(''hot'', [''hot'', ''sunny'', ''warm'', ''summer'', ''heat'']),
         (''cold'', [''cold'', ''winter'', ''freezing'', ''chilly'', ''snow'']),
         (''rainy'', [''rain'', ''wet'', ''drizzle'', ''storm'', ''umbrella'']),
         (''mild'', [''mild'', ''pleasant'', ''moderate'', ''spring'', ''fall''])]
        (lower txt) of
        Some weather \<Rightarrow> weather
      | None \<Rightarrow> ''mild'')"

definition extract_vibe_from_text :: "string \<Rightarrow> string" where
  "extract_vibe_from_text txt =
     (case first_match
        [(''business'', [''business'', ''meeting'', ''presentation'', ''corporate'', ''executive'']),
         (''professional'', [''professional'', ''work'', ''office'', ''formal'']),
         (''casual'', [''casual'', ''relaxed'', ''comfortable'', ''laid-back'', ''everyday'']),
         (''trendy'', [''trendy'', ''stylish'', ''fashionable'', ''hip'', ''cool'', ''modern'']),
         (''sporty'', [''sporty'', ''athletic'', ''gym'', ''workout'', ''active'', ''exercise''])]
        (lower txt) of
        Some vibe \<Rightarrow> vibe
      | None \<Rightarrow> ''casual'')"

definition extract_occasion_from_text :: "string \<Rightarrow> string" where
  "extract_occasion_from_text txt =
     (case first_match
        [(''date'', [''date'', ''romantic'', ''dinner'', ''restaurant'']),
         (''work'', [''work'', ''office'', ''meeting'', ''presentation'']),
         (''party'', [''party'', ''celebration'', ''event'', ''night out'']),
         (''casual'', [''everyday'', ''general'', ''normal'', ''regular''])]
        (lower txt) of
        Some occasion \<Rightarrow> occasion
      | None \<Rightarrow> ''general'')"

text \<open>
  \<open>ClothingAI._fallback_text_parsing\<close>: the weather and the vibe it detects, and the
  call of \<open>suggest_outfit\<close> it ends with (no occasion is passed, so the parameter takes
  its default \<open>general\<close>).
\<close>

definition fallback_weather :: "string \<Rightarrow> string" where
  "fallback_weather text_lower =
     (if any_in [''hot'', ''warm'', ''summer'', ''sunny'', ''beach''] text_lower then ''hot''
      else if any_in [''cold'', ''winter'', ''chilly'', ''freezing'', ''snow''] text_lower then ''cold''
      else if any_in [''rain'', ''wet'', ''rainy'', ''drizzle'', ''storm''] text_lower then ''rainy''
      else if any_in [''cool'', ''fall'', ''autumn''] text_lower then ''cool''
      else ''mild'')"

definition fallback_vibe :: "string \<Rightarrow> string" where
  "fallback_vibe text_lower =
     (if any_in [''business'', ''meeting'', ''presentation'', ''office'', ''formal'', ''suit''] text_lower
      then (if any_in [''business'', ''meeting'', ''presentation''] text_lower
            then ''business'' else ''professional'')
      else if any_in [''professional'', ''work''] text_lower then ''professional''
      else if any_in [''trendy'', ''stylish'', ''fashionable'', ''hip'', ''cool''] text_lower then ''trendy''
      else if any_in [''sporty'', ''gym'', ''workout'', ''exercise'', ''athletic''] text_lower then ''sporty''
      else if any_in [''casual'', ''relaxed'', ''comfortable'', ''everyday''] text_lower then ''casual''
      else ''casual'')"

definition fallback_text_parsing :: "ClothingItem list \<Rightarrow> string \<Rightarrow> Suggestion rand" where
  "fallback_text_parsing wardrobe txt =
     (let text_lower = lower txt;
          weather = fallback_weather text_lower;
          vibe = fallback_vibe text_lower
      in suggest_outfit wardrobe weather vibe ''general'')"

section \<open>Substrings and words\<close>

text \<open>\<open>str_in\<close> is the substring relation, and every word of \<open>split\<close> is a substring.\<close>

lemma startswith_iff: "startswith s k \<longleftrightarrow> (\<exists>q. s = k @ q)"
  by (induction s k rule: startswith.induct) auto

lemma str_in_iff: "str_in k s \<longleftrightarrow> (\<exists>p q. s = p @ k @ q)"
proof (induction s)
  case Nil
  then show ?case by auto
next
  case (Cons c cs)
  show ?case
  proof
    assume "str_in k (c # cs)"
    then consider "startswith (c # cs) k" | "str_in k cs" by (auto split: if_splits)
    then show "\<exists>p q. c # cs = p @ k @ q"
    proof cases
      case 1
      then obtain q where "c # cs = k @ q" by (auto simp: startswith_iff)
      then have "c # cs = [] @ k @ q" by simp
      then show ?thesis by blast
    next
      case 2
      then obtain p q where "cs = p @ k @ q" using Cons.IH by blast
      then have "c # cs = (c # p) @ k @ q" by simp
      then show ?thesis by blast
    qed
  next
    assume "\<exists>p q. c # cs = p @ k @ q"
    then obtain p q where pq: "c # cs = p @ k @ q" by blast
    show "str_in k (c # cs)"
    proof (cases p)
      case Nil
      with pq have "startswith (c # cs) k" by (auto simp: startswith_iff)
      then show ?thesis by simp
    next
      case (Cons a p')
      with pq have "cs = p' @ k @ q" by simp
      then have "str_in k cs" using Cons.IH by blast
      then show ?thesis by simp
    qed
  qed
qed

lemma split_acc_word:
  "w \<in> set (split_acc cur s) \<Longrightarrow> \<exists>p q. cur @ s = p @ w @ q"
proof (induction s arbitrary: cur)
  case Nil
  then have "w = cur" by (auto split: if_splits)
  then have "cur @ [] = [] @ w @ []" by simp
  then show ?case by blast
next
  case (Cons c cs)
  show ?case
  proof (cases "is_space c")
    case False
    with Cons.prems have "w \<in> set (split_acc (cur @ [c]) cs)" by simp
    from Cons.IH[OF this] show ?thesis by simp
  next
    case True
    with Cons.prems consider "w = cur" | "w \<in> set (split_acc [] cs)" by (auto split: if_splits)
    then show ?thesis
    proof cases
      case 1
      then have "cur @ c # cs = [] @ w @ (c # cs)" by simp
      then show ?thesis by blast
    next
      case 2
      from Cons.IH[OF this] obtain p q where "cs = p @ w @ q" by auto
      then have "cur @ c # cs = (cur @ c # p) @ w @ q" by simp
      then show ?thesis by blast
    qed
  qed
qed

lemma split_word_str_in: "w \<in> set (split s) \<Longrightarrow> str_in w s"
  using split_acc_word[of w "[]" s] by (simp add: split_def str_in_iff)

section \<open>The labeler\<close>

lemma first_match_append:
  "first_match before s = None \<Longrightarrow> first_match (before @ rest) s = first_match rest s"
  by (induction before s rule: first_match.induct) (auto split: if_splits)

lemma any_in_member: "k \<in> set keywords \<Longrightarrow> str_in k s \<Longrightarrow> any_in keywords s"
  by (auto simp: any_in_def list_ex_iff)

lemma calculate_confidence_total: "\<exists>c. calculate_confidence s = Inr c"
proof -
  have "max 1 (int (length (split s))) \<noteq> 0" by simp
  then show ?thesis
    unfolding calculate_confidence_def truediv_def Let_def by (simp del: of_nat_eq_0_iff)
qed

lemma label_type:
  "\<exists>l. label_clothing_from_text d = Inr l \<and>
       l_type l = (case first_match clothing_keywords (lower d) of Some t \<Rightarrow> ClothingType_value t | None \<Rightarrow> ''unknown'') \<and>
       l_formality_level l = predict_formality (lower d)"
proof -
  obtain c where "calculate_confidence (lower d) = Inr c" using calculate_confidence_total by blast
  then show ?thesis by (simp add: label_clothing_from_text_def Let_def)
qed

lemma count_hits_add:
  assumes "k \<in> set ks" "distinct ks" "\<not> str_in k d" "str_in k d'"
    and "\<forall>k' \<in> set ks. k' \<noteq> k \<longrightarrow> str_in k' d' = str_in k' d"
  shows "count_hits ks d' = count_hits ks d + 1"
  using assms
proof (induction ks)
  case Nil
  then show ?case by simp
next
  case (Cons a ks)
  show ?case
  proof (cases "a = k")
    case True
    with Cons.prems have "k \<notin> set ks" by simp
    with Cons.prems(5) have "\<forall>k' \<in> set ks. str_in k' d' = str_in k' d" by auto
    then have "filter (\<lambda>keyword. str_in keyword d') ks = filter (\<lambda>keyword. str_in keyword d) ks"
      by (auto intro: filter_cong)
    with True Cons.prems(3,4) show ?thesis by (simp add: count_hits_def)
  next
    case False
    with Cons.prems have "k \<in> set ks" "distinct ks" "\<forall>k' \<in> set ks. k' \<noteq> k \<longrightarrow> str_in k' d' = str_in k' d"
      by auto
    from Cons.IH[OF this(1,2) Cons.prems(3,4) this(3)] have ih: "count_hits ks d' = count_hits ks d + 1" .
    from False Cons.prems(5) have "str_in a d' = str_in a d" by simp
    with ih show ?thesis by (simp add: count_hits_def)
  qed
qed

lemma count_hits_same:
  assumes "\<forall>k' \<in> set ks. str_in k' d' = str_in k' d"
  shows "count_hits ks d' = count_hits ks d"
proof -
  from assms have "filter (\<lambda>keyword. str_in keyword d') ks = filter (\<lambda>keyword. str_in keyword d) ks"
    by (auto intro: filter_cong)
  then show ?thesis by (simp add: count_hits_def)
qed

lemma formality_step:
  "0 \<le> f \<Longrightarrow> 0 \<le> c \<Longrightarrow> (if (f::int) > c then min (7 + f) 10 else if c > f then max (3 - c) 1 else 5)
   \<le> (if f + 1 > c then min (7 + (f + 1)) 10 else if c > f + 1 then max (3 - c) 1 else 5)"
  by (auto simp: min_def max_def)

lemma count_hits_nonneg: "0 \<le> count_hits ks d"
  by (simp add: count_hits_def)

lemma distinct_formal: "distinct formal_keywords"
  by (simp add: formal_keywords_def)

lemma predict_formality_mono:
  assumes "k \<in> set formal_keywords" "\<not> str_in k d" "str_in k d'"
    and "\<forall>k' \<in> set formal_keywords. k' \<noteq> k \<longrightarrow> str_in k' d' = str_in k' d"
    and "\<forall>c \<in> set casual_keywords. str_in c d' = str_in c d"
  shows "predict_formality d \<le> predict_formality d'"
proof -
  have f: "count_hits formal_keywords d' = count_hits formal_keywords d + 1"
    using assms(1) distinct_formal assms(2,3,4) by (rule count_hits_add)
  have c: "count_hits casual_keywords d' = count_hits casual_keywords d"
    using assms(5) by (rule count_hits_same)
  show ?thesis
    unfolding predict_formality_def Let_def f c
    by (rule formality_step) (rule count_hits_nonneg)+
qed

text \<open>
  C7. Labelling the empty description returns type \<open>unknown\<close>, no styles, the weather
  suitability \<open>mild\<close> alone, formality 5, warmth 5 and confidence 0. The empty text has
  no words, and the quotient of the confidence is taken over \<open>max(1, 0) = 1\<close>, so the
  division does not raise.
\<close>

theorem label_empty_description:
  "label_clothing_from_text '''' =
     Inr \<lparr>l_type = ''unknown'', l_styles = [], l_weather_suitability = [''mild''],
          l_formality_level = 5, l_warmth_rating = 5, l_confidence = 0\<rparr>
   \<and> split (lower '''') = []
   \<and> truediv 0 (max 1 (int (length (split (lower ''''))))) = Inr 0"
  by code_simp

text \<open>
  C4. On the request \<open>What should I wear for a professional business meeting?\<close> the
  keyword scans give weather \<open>mild\<close>, vibe \<open>business\<close> and occasion \<open>work\<close>: the
  weather and the vibe by the scan of \<open>_fallback_text_parsing\<close> and also by the scans
  of \<open>HuggingFaceIntegration\<close>, the occasion by \<open>_extract_occasion_from_text\<close>.
\<close>

theorem parse_business_meeting_request:
  "fallback_weather (lower ''What should I wear for a professional business meeting?'') = ''mild''
   \<and> fallback_vibe (lower ''What should I wear for a professional business meeting?'') = ''business''
   \<and> extract_occasion_from_text ''What should I wear for a professional business meeting?'' = ''work''
   \<and> extract_weather_from_text ''What should I wear for a professional business meeting?'' = ''mild''
   \<and> extract_vibe_from_text ''What should I wear for a professional business meeting?'' = ''business''"
  by code_simp

text \<open>
  C5, as stated, fails: the description \<open>hoodie jeans\<close> contains the word
  \<open>jeans\<close>, a keyword of the type JEANS, and is labelled \<open>hoodie\<close>, because the
  scan stops at the first type of the table with a keyword in the text.
\<close>

theorem exact_keyword_not_always_returned:
  "''jeans'' \<in> set (split (lower ''hoodie jeans''))
   \<and> (JEANS, [''jeans'', ''denim'']) \<in> set clothing_keywords
   \<and> label_clothing_from_text ''hoodie jeans'' =
       Inr \<lparr>l_type = ''hoodie'', l_styles = [], l_weather_suitability = [''cool'', ''cold''],
            l_formality_level = 1, l_warmth_rating = 5, l_confidence = 1\<rparr>"
  by code_simp

text \<open>
  C5, amended. When the lower-cased description contains, as a word, a keyword of a
  type and no keyword of a type that stands earlier in the table occurs in it as a
  substring, the label's type is that type.
\<close>

theorem type_detection_first_match:
  assumes "clothing_keywords = before @ (t, keywords) # after"
    and "k \<in> set keywords"
    and "k \<in> set (split (lower description))"
    and "first_match before (lower description) = None"
  shows "\<exists>l. label_clothing_from_text description = Inr l \<and> l_type l = ClothingType_value t"
proof -
  have "str_in k (lower description)" using assms(3) by (rule split_word_str_in)
  then have "any_in keywords (lower description)" using assms(2) by (simp add: any_in_member)
  moreover have "first_match (before @ (t, keywords) # after) (lower description)
      = first_match ((t, keywords) # after) (lower description)"
    using assms(4) by (rule first_match_append)
  ultimately have "first_match clothing_keywords (lower description) = Some t"
    unfolding assms(1) by simp
  then show ?thesis using label_type[of description] by auto
qed

theorem type_detection_first_match_witness:
  "\<exists>l. label_clothing_from_text ''Blue Jeans'' = Inr l \<and> l_type l = ''jeans''"
proof -
  have h1: "clothing_keywords =
      [(HOODIE, [''hoodie'', ''hooded'', ''pullover'']),
       (T_SHIRT, [''t-shirt'', ''tee'', ''shirt'', ''top''])]
      @ (JEANS, [''jeans'', ''denim''])
      # [(SHORTS, [''shorts'', ''short pants'']),
         (JACKET, [''jacket'', ''blazer'', ''coat'']),
         (SWEATER, [''sweater'', ''jumper'', ''cardigan'']),
         (DRESS, [''dress'', ''gown'']),
         (SKIRT, [''skirt'', ''mini'', ''maxi'']),
         (PANTS, [''pants'', ''trousers'', ''slacks'']),
         (SNEAKERS, [''sneakers'', ''trainers'', ''athletic shoes'']),
         (BOOTS, [''boots'', ''ankle boots'', ''hiking boots'']),
         (SANDALS, [''sandals'', ''flip flops'', ''slides''])]"
    by (simp add: clothing_keywords_def)
  have h2: "''jeans'' \<in> set [''jeans'', ''denim'']" by simp
  have h3: "''jeans'' \<in> set (split (lower ''Blue Jeans''))" by code_simp
  have h4: "first_match
      [(HOODIE, [''hoodie'', ''hooded'', ''pullover'']),
       (T_SHIRT, [''t-shirt'', ''tee'', ''shirt'', ''top''])] (lower ''Blue Jeans'') = None"
    by code_simp
  from type_detection_first_match[OF h1 h2 h3 h4] show ?thesis by simp
qed

text \<open>
  C8. The formality level is the value \<open>min(7 + F, 10)\<close> when \<open>F > C\<close>,
  \<open>max(3 - C, 1)\<close> when \<open>C > F\<close> and 5 otherwise, for the numbers \<open>F\<close> and \<open>C\<close>
  of formal and casual keywords in the lower-cased description. When a second
  description has one more formal keyword and otherwise the same formal and casual
  keywords, its formality level is not smaller.
\<close>

theorem formality_monotone_in_formal_keywords:
  assumes "k \<in> set formal_keywords"
    and "\<not> str_in k (lower d)"
    and "str_in k (lower d')"
    and "\<forall>k' \<in> set formal_keywords. k' \<noteq> k \<longrightarrow> str_in k' (lower d') = str_in k' (lower d)"
    and "\<forall>c \<in> set casual_keywords. str_in c (lower d') = str_in c (lower d)"
  shows "\<exists>l l'. label_clothing_from_text d = Inr l \<and> label_clothing_from_text d' = Inr l'
     \<and> l_formality_level l \<le> l_formality_level l'
     \<and> l_formality_level l =
         (if count_hits formal_keywords (lower d) > count_hits casual_keywords (lower d)
          then min (7 + count_hits formal_keywords (lower d)) 10
          else if count_hits casual_keywords (lower d) > count_hits formal_keywords (lower d)
          then max (3 - count_hits casual_keywords (lower d)) 1
          else 5)"
proof -
  obtain l where l: "label_clothing_from_text d = Inr l"
      "l_formality_level l = predict_formality (lower d)"
    using label_type[of d] by blast
  obtain l' where l': "label_clothing_from_text d' = Inr l'"
      "l_formality_level l' = predict_formality (lower d')"
    using label_type[of d'] by blast
  have "predict_formality (lower d) \<le> predict_formality (lower d')"
    using assms by (rule predict_formality_mono)
  moreover have "predict_formality (lower d) =
         (if count_hits formal_keywords (lower d) > count_hits casual_keywords (lower d)
          then min (7 + count_hits formal_keywords (lower d)) 10
          else if count_hits casual_keywords (lower d) > count_hits formal_keywords (lower d)
          then max (3 - count_hits casual_keywords (lower d)) 1
          else 5)"
    by (simp add: predict_formality_def Let_def)
  ultimately show ?thesis using l l' by auto
qed

theorem formality_monotone_in_formal_keywords_witness:
  "\<exists>l l'. label_clothing_from_text ''white shirt'' = Inr l
     \<and> label_clothing_from_text ''formal white shirt'' = Inr l'
     \<and> l_formality_level l \<le> l_formality_level l'"
proof -
  have h1: "''formal'' \<in> set formal_keywords" by code_simp
  have h2: "\<not> str_in ''formal'' (lower ''white shirt'')" by code_simp
  have h3: "str_in ''formal'' (lower ''formal white shirt'')" by code_simp
  have h4: "\<forall>k' \<in> set formal_keywords. k' \<noteq> ''formal'' \<longrightarrow>
      str_in k' (lower ''formal white shirt'') = str_in k' (lower ''white shirt'')"
    by code_simp
  have h5: "\<forall>c \<in> set casual_keywords.
      str_in c (lower ''formal white shirt'') = str_in c (lower ''white shirt'')"
    by code_simp
  from formality_monotone_in_formal_keywords[OF h1 h2 h3 h4 h5] show ?thesis by blast
qed

section \<open>The outfit engine\<close>

text \<open>Random picks from a non-empty list succeed and return one of its elements.\<close>

lemma append_choice_ok:
  assumes "seq \<noteq> []"
  shows "\<exists>x. x \<in> set seq \<and> append_choice outfit seq r = Inr (outfit @ [x], \<lambda>n. r (Suc n))"
proof -
  have "seq ! (r 0 mod length seq) \<in> set seq" using assms by simp
  then show ?thesis using assms
    by (simp add: append_choice_def rbind_def random_choice_def rreturn_def)
qed

lemma pick_opt:
  "\<exists>xs r'. (if seq \<noteq> [] then append_choice outfit seq else rreturn outfit) r = Inr (outfit @ xs, r')
     \<and> length xs \<le> 1 \<and> set xs \<subseteq> set seq"
proof (cases "seq = []")
  case True
  then have "(if seq \<noteq> [] then append_choice outfit seq else rreturn outfit) r = Inr (outfit @ [], r)"
    by (simp add: rreturn_def)
  then show ?thesis by (metis empty_set empty_subsetI list.size(3) zero_le_one)
next
  case False
  then obtain x where "x \<in> set seq"
      "append_choice outfit seq r = Inr (outfit @ [x], \<lambda>n. r (Suc n))"
    using append_choice_ok by blast
  with False have "(if seq \<noteq> [] then append_choice outfit seq else rreturn outfit) r
      = Inr (outfit @ [x], \<lambda>n. r (Suc n)) \<and> length [x] \<le> 1 \<and> set [x] \<subseteq> set seq"
    by simp
  then show ?thesis by blast
qed

lemma pick_pref:
  "\<exists>xs r'. (if pref \<noteq> [] then append_choice outfit pref
             else if seq \<noteq> [] then append_choice outfit seq else rreturn outfit) r
       = Inr (outfit @ xs, r')
     \<and> length xs \<le> 1 \<and> set xs \<subseteq> set pref \<union> set seq"
proof (cases "pref = []")
  case True
  then show ?thesis using pick_opt[of seq outfit r] by auto
next
  case False
  then show ?thesis using pick_opt[of pref outfit r] by auto
qed

lemma pick_pref_nonempty:
  assumes "seq \<noteq> []"
  shows "\<exists>x r'. (if pref \<noteq> [] then append_choice outfit pref else append_choice outfit seq) r
       = Inr (outfit @ [x], r') \<and> x \<in> set pref \<union> set seq"
proof (cases "pref = []")
  case True
  then show ?thesis using append_choice_ok[OF assms, of outfit r] by auto
next
  case False
  then show ?thesis using append_choice_ok[OF False, of outfit r] by auto
qed

lemma coin_ok: "\<exists>b. random_choice [True, False] r = Inr (b, \<lambda>n. r (Suc n))"
  by (simp add: random_choice_def)

lemma choose_shoes_ok:
  "\<exists>xs r'. choose_shoes items outfit r = Inr (outfit @ xs, r') \<and> length xs \<le> 1
     \<and> set xs \<subseteq> set items \<and> (\<forall>x \<in> set xs. type x \<in> {SNEAKERS, BOOTS, SANDALS})"
proof -
  define shoes where "shoes = filter (\<lambda>item. type item \<in> set [SNEAKERS, BOOTS, SANDALS]) items"
  have sub: "set shoes \<subseteq> set items" "\<forall>x \<in> set shoes. type x \<in> {SNEAKERS, BOOTS, SANDALS}"
    by (auto simp: shoes_def)
  show ?thesis
  proof (cases "shoes = []")
    case True
    then have "choose_shoes items outfit r = Inr (outfit @ [], r)"
      by (simp add: choose_shoes_def shoes_def rreturn_def)
    then show ?thesis by (metis empty_iff empty_set empty_subsetI list.size(3) zero_le_one)
  next
    case False
    have "\<exists>x r'. choose_shoes items outfit r = Inr (outfit @ [x], r') \<and> x \<in> set shoes"
    proof (cases "length (filter is_formal items) > 0")
      case True
      with False have eq: "choose_shoes items outfit r =
          (if filter is_formal shoes \<noteq> [] then append_choice outfit (filter is_formal shoes)
           else append_choice outfit shoes) r"
        by (simp add: choose_shoes_def shoes_def Let_def)
      from pick_pref_nonempty[OF False, of "filter is_formal shoes" outfit r]
      show ?thesis unfolding eq by auto
    next
      case nf: False
      with False have eq: "choose_shoes items outfit r = append_choice outfit shoes r"
        by (simp add: choose_shoes_def shoes_def Let_def)
      from append_choice_ok[OF False, of outfit r] show ?thesis unfolding eq by auto
    qed
    then obtain x r' where x: "choose_shoes items outfit r = Inr (outfit @ [x], r')" "x \<in> set shoes"
      by blast
    with sub have "length [x] \<le> 1 \<and> set [x] \<subseteq> set items
        \<and> (\<forall>y \<in> set [x]. type y \<in> {SNEAKERS, BOOTS, SANDALS})"
      by auto
    with x(1) show ?thesis by blast
  qed
qed

lemma outerwear_flag_ok:
  "\<exists>b r'. (if w then rreturn True else if f then rreturn True else random_choice [True, False]) r
     = Inr (b, r')"
  using coin_ok[of r] by (auto simp: rreturn_def)

lemma choose_outerwear_ok:
  "\<exists>xs r'. choose_outerwear items outfit r = Inr (outfit @ xs, r') \<and> length xs \<le> 1
     \<and> set xs \<subseteq> set items \<and> (\<forall>x \<in> set xs. type x = JACKET)"
proof -
  define outerwear where "outerwear = filter (\<lambda>item. type item = JACKET) items"
  have sub: "set outerwear \<subseteq> set items" "\<forall>x \<in> set outerwear. type x = JACKET"
    by (auto simp: outerwear_def)
  have none: "\<exists>xs r'. Inr (outfit @ [], r'') = Inr (outfit @ xs, r') \<and> length xs \<le> 1
     \<and> set xs \<subseteq> set items \<and> (\<forall>x \<in> set xs. type x = JACKET)" for r'' :: rng
    by (metis empty_iff empty_set empty_subsetI list.size(3) zero_le_one)
  show ?thesis
  proof (cases "outerwear = []")
    case True
    then have "choose_outerwear items outfit r = Inr (outfit @ [], r)"
      by (simp add: choose_outerwear_def outerwear_def rreturn_def)
    then show ?thesis using none[of r] by simp
  next
    case False
    define w where "w = list_ex (\<lambda>item. type item \<in> set [JACKET] \<and>
                             list_ex (\<lambda>weather. weather \<in> set (weather_suitability item)) [COLD, RAINY])
                    outerwear"
    define f where "f = (length (filter is_formal items) > 0 \<and> list_ex is_formal outerwear)"
    define add where "add = (\<lambda>add_outerwear.
                    if add_outerwear then
                      (if length (filter is_formal items) > 0 then
                         (if filter is_formal outerwear \<noteq> [] then append_choice outfit (filter is_formal outerwear)
                             else append_choice outfit outerwear)
                       else append_choice outfit outerwear)
                    else rreturn outfit)"
    have "choose_outerwear items outfit r =
        (if outerwear \<noteq> [] then
           rbind (if w then rreturn True else if f then rreturn True else random_choice [True, False]) add
         else rreturn outfit) r"
      unfolding choose_outerwear_def Let_def outerwear_def w_def f_def add_def by (rule refl)
    then have eq: "choose_outerwear items outfit r =
        rbind (if w then rreturn True else if f then rreturn True else random_choice [True, False]) add r"
      using False by simp
    obtain b r1 where b: "(if w then rreturn True else if f then rreturn True
        else random_choice [True, False]) r = Inr (b, r1)"
      using outerwear_flag_ok by blast
    then have eq2: "choose_outerwear items outfit r = add b r1"
      unfolding eq by (simp add: rbind_def)
    show ?thesis
    proof (cases b)
      case nb: False
      then have "choose_outerwear items outfit r = Inr (outfit @ [], r1)"
        unfolding eq2 by (simp add: add_def rreturn_def)
      then show ?thesis using none[of r1] by simp
    next
      case True
      have "\<exists>x r'. add b r1 = Inr (outfit @ [x], r') \<and> x \<in> set outerwear"
      proof (cases "length (filter is_formal items) > 0")
        case hf: True
        with True have a: "add b r1 = (if filter is_formal outerwear \<noteq> [] then
             append_choice outfit (filter is_formal outerwear) else append_choice outfit outerwear) r1"
          by (simp add: add_def)
        from pick_pref_nonempty[OF False, of "filter is_formal outerwear" outfit r1]
        show ?thesis unfolding a by auto
      next
        case nf: False
        with True have a: "add b r1 = append_choice outfit outerwear r1" by (simp add: add_def)
        from append_choice_ok[OF False, of outfit r1] show ?thesis unfolding a by auto
      qed
      then obtain x r' where x: "choose_outerwear items outfit r = Inr (outfit @ [x], r')"
          "x \<in> set outerwear"
        unfolding eq2 by blast
      with sub have "length [x] \<le> 1 \<and> set [x] \<subseteq> set items \<and> (\<forall>y \<in> set [x]. type y = JACKET)"
        by auto
      with x(1) show ?thesis by blast
    qed
  qed
qed

lemma rbind_two_picks:
  assumes "\<exists>ts r'. m r = Inr (outfit @ ts, r') \<and> P ts"
    and "\<And>outfit' r'. \<exists>bs r''. f outfit' r' = Inr (outfit' @ bs, r'') \<and> Q bs"
  shows "\<exists>ts bs r'. rbind m f r = Inr (outfit @ ts @ bs, r') \<and> P ts \<and> Q bs"
proof -
  from assms(1) obtain ts r1 where 1: "m r = Inr (outfit @ ts, r1)" "P ts" by blast
  from assms(2)[of "outfit @ ts" r1] obtain bs r2 where
    2: "f (outfit @ ts) r1 = Inr ((outfit @ ts) @ bs, r2)" "Q bs" by blast
  from 1 2 have "rbind m f r = Inr (outfit @ ts @ bs, r2)" by (simp add: rbind_def)
  with 1 2 show ?thesis by blast
qed

lemma choose_top_layer_ok:
  "\<exists>xs r'. choose_top_layer items outfit r = Inr (outfit @ xs, r') \<and> set xs \<subseteq> set items \<and>
     ((\<exists>d. xs = [d] \<and> type d = DRESS) \<or>
      (\<exists>ts bs. xs = ts @ bs
         \<and> length ts \<le> 1 \<and> (\<forall>t \<in> set ts. type t \<in> {T_SHIRT, HOODIE, SWEATER})
         \<and> length bs \<le> 1 \<and> (\<forall>b \<in> set bs. type b \<in> {JEANS, SHORTS, PANTS})))"
proof -
  define tops where "tops = filter (\<lambda>item. type item \<in> set [T_SHIRT, HOODIE, SWEATER]) items"
  define bottoms where "bottoms = filter (\<lambda>item. type item \<in> set [JEANS, SHORTS, PANTS]) items"
  define dresses where "dresses = filter (\<lambda>item. type item = DRESS) items"
  define hf where "hf = (length (filter is_formal items) > 0)"
  define flag where "flag = (if dresses \<noteq> [] then
                  (if \<not> hf then rreturn True else random_choice [True, False])
                else rreturn False)"
  define formal_branch where "formal_branch =
      rbind (if filter is_formal tops \<noteq> [] then append_choice outfit (filter is_formal tops)
             else if tops \<noteq> [] then append_choice outfit tops
             else rreturn outfit)
        (\<lambda>outfit'.
           if filter is_formal bottoms \<noteq> [] then append_choice outfit' (filter is_formal bottoms)
           else if bottoms \<noteq> [] then append_choice outfit' bottoms
           else rreturn outfit')"
  define casual_branch where "casual_branch =
      rbind (if tops \<noteq> [] then append_choice outfit tops else rreturn outfit)
        (\<lambda>outfit'. if bottoms \<noteq> [] then append_choice outfit' bottoms else rreturn outfit')"
  have eq: "choose_top_layer items outfit r =
      rbind flag (\<lambda>take_dress. if take_dress then append_choice outfit dresses
                     else if hf then formal_branch else casual_branch) r"
    unfolding choose_top_layer_def Let_def tops_def bottoms_def dresses_def hf_def flag_def
      formal_branch_def casual_branch_def by (rule refl)
  have tops: "set tops \<subseteq> set items" "\<forall>t \<in> set tops. type t \<in> {T_SHIRT, HOODIE, SWEATER}"
    by (auto simp: tops_def)
  have bottoms: "set bottoms \<subseteq> set items" "\<forall>b \<in> set bottoms. type b \<in> {JEANS, SHORTS, PANTS}"
    by (auto simp: bottoms_def)
  have dresses: "set dresses \<subseteq> set items" "\<forall>d \<in> set dresses. type d = DRESS"
    by (auto simp: dresses_def)
  have "\<exists>b r1. flag r = Inr (b, r1) \<and> (if b then dresses \<noteq> [] else True)"
    using coin_ok[of r] by (auto simp: flag_def rreturn_def)
  then obtain b r1 where flag: "flag r = Inr (b, r1)" and bd: "if b then dresses \<noteq> [] else True"
    by blast
  have eq2: "choose_top_layer items outfit r =
      (if b then append_choice outfit dresses else if hf then formal_branch else casual_branch) r1"
    unfolding eq using flag by (simp add: rbind_def)
  show ?thesis
  proof (cases b)
    case True
    with bd have "dresses \<noteq> []" by simp
    from append_choice_ok[OF this, of outfit r1] obtain d where
      d: "d \<in> set dresses" "append_choice outfit dresses r1 = Inr (outfit @ [d], \<lambda>n. r1 (Suc n))"
      by blast
    from d(1) dresses have "set [d] \<subseteq> set items \<and> type d = DRESS" by auto
    moreover from True d(2) have "choose_top_layer items outfit r = Inr (outfit @ [d], \<lambda>n. r1 (Suc n))"
      unfolding eq2 by simp
    ultimately show ?thesis by blast
  next
    case False
    have "\<exists>ts bs r'. (if hf then formal_branch else casual_branch) r1 = Inr (outfit @ ts @ bs, r')
        \<and> (length ts \<le> 1 \<and> set ts \<subseteq> set tops) \<and> (length bs \<le> 1 \<and> set bs \<subseteq> set bottoms)"
    proof (cases hf)
      case True
      have 1: "\<exists>ts r'. (if filter is_formal tops \<noteq> [] then append_choice outfit (filter is_formal tops)
             else if tops \<noteq> [] then append_choice outfit tops
             else rreturn outfit) r1 = Inr (outfit @ ts, r') \<and> (length ts \<le> 1 \<and> set ts \<subseteq> set tops)"
        using pick_pref[of "filter is_formal tops" outfit tops r1] by auto
      have 2: "\<exists>bs r''. (if filter is_formal bottoms \<noteq> [] then append_choice outfit' (filter is_formal bottoms)
           else if bottoms \<noteq> [] then append_choice outfit' bottoms
           else rreturn outfit') r' = Inr (outfit' @ bs, r'') \<and> (length bs \<le> 1 \<and> set bs \<subseteq> set bottoms)"
        for outfit' r'
        using pick_pref[of "filter is_formal bottoms" outfit' bottoms r'] by auto
      let ?m = "if filter is_formal tops \<noteq> [] then append_choice outfit (filter is_formal tops)
             else if tops \<noteq> [] then append_choice outfit tops
             else rreturn outfit"
      let ?f = "\<lambda>outfit'.
           if filter is_formal bottoms \<noteq> [] then append_choice outfit' (filter is_formal bottoms)
           else if bottoms \<noteq> [] then append_choice outfit' bottoms
           else rreturn outfit'"
      from rbind_two_picks[of ?m r1 outfit "\<lambda>ts. length ts \<le> 1 \<and> set ts \<subseteq> set tops" ?f
          "\<lambda>bs. length bs \<le> 1 \<and> set bs \<subseteq> set bottoms", OF 1 2]
      show ?thesis using True unfolding formal_branch_def by simp
    next
      case nf: False
      have 1: "\<exists>ts r'. (if tops \<noteq> [] then append_choice outfit tops else rreturn outfit) r1
          = Inr (outfit @ ts, r') \<and> (length ts \<le> 1 \<and> set ts \<subseteq> set tops)"
        using pick_opt[of tops outfit r1] by auto
      have 2: "\<exists>bs r''. (if bottoms \<noteq> [] then append_choice outfit' bottoms else rreturn outfit') r'
          = Inr (outfit' @ bs, r'') \<and> (length bs \<le> 1 \<and> set bs \<subseteq> set bottoms)"
        for outfit' r'
        using pick_opt[of bottoms outfit' r'] by auto
      let ?m = "if tops \<noteq> [] then append_choice outfit tops else rreturn outfit"
      let ?f = "\<lambda>outfit'. if bottoms \<noteq> [] then append_choice outfit' bottoms else rreturn outfit'"
      from rbind_two_picks[of ?m r1 outfit "\<lambda>ts. length ts \<le> 1 \<and> set ts \<subseteq> set tops" ?f
          "\<lambda>bs. length bs \<le> 1 \<and> set bs \<subseteq> set bottoms", OF 1 2]
      show ?thesis using nf unfolding casual_branch_def by simp
    qed
    then obtain ts bs r' where
      r: "(if hf then formal_branch else casual_branch) r1 = Inr (outfit @ ts @ bs, r')"
      and ts: "length ts \<le> 1" "set ts \<subseteq> set tops" and bs: "length bs \<le> 1" "set bs \<subseteq> set bottoms"
      by blast
    from False r have "choose_top_layer items outfit r = Inr (outfit @ (ts @ bs), r')"
      unfolding eq2 by simp
    moreover have "set (ts @ bs) \<subseteq> set items" using ts bs tops bottoms by auto
    moreover have "\<forall>t \<in> set ts. type t \<in> {T_SHIRT, HOODIE, SWEATER}" using ts tops by blast
    moreover have "\<forall>b \<in> set bs. type b \<in> {JEANS, SHORTS, PANTS}" using bs bottoms by blast
    ultimately show ?thesis using ts(1) bs(1) by blast
  qed
qed

lemma short_list: "length xs \<le> 1 \<Longrightarrow> xs = [] \<or> (\<exists>x. xs = [x])"
  by (cases xs) auto

lemma create_outfit_combination_ok:
  "\<exists>upper sh ow r'. create_outfit_combination items r = Inr (upper @ sh @ ow, r')
     \<and> set (upper @ sh @ ow) \<subseteq> set items
     \<and> ((\<exists>d. upper = [d] \<and> type d = DRESS) \<or>
        (\<exists>ts bs. upper = ts @ bs
           \<and> length ts \<le> 1 \<and> (\<forall>t \<in> set ts. type t \<in> {T_SHIRT, HOODIE, SWEATER})
           \<and> length bs \<le> 1 \<and> (\<forall>b \<in> set bs. type b \<in> {JEANS, SHORTS, PANTS})))
     \<and> length sh \<le> 1 \<and> (\<forall>x \<in> set sh. type x \<in> {SNEAKERS, BOOTS, SANDALS})
     \<and> length ow \<le> 1 \<and> (\<forall>x \<in> set ow. type x = JACKET)"
proof -
  obtain upper r1 where upper: "choose_top_layer items [] r = Inr ([] @ upper, r1)" "set upper \<subseteq> set items"
      "(\<exists>d. upper = [d] \<and> type d = DRESS) \<or>
        (\<exists>ts bs. upper = ts @ bs
           \<and> length ts \<le> 1 \<and> (\<forall>t \<in> set ts. type t \<in> {T_SHIRT, HOODIE, SWEATER})
           \<and> length bs \<le> 1 \<and> (\<forall>b \<in> set bs. type b \<in> {JEANS, SHORTS, PANTS}))"
    using choose_top_layer_ok[of items "[]" r] by blast
  obtain sh r2 where sh: "choose_shoes items upper r1 = Inr (upper @ sh, r2)" "length sh \<le> 1"
      "set sh \<subseteq> set items" "\<forall>x \<in> set sh. type x \<in> {SNEAKERS, BOOTS, SANDALS}"
    using choose_shoes_ok[of items upper r1] by blast
  obtain ow r3 where ow: "choose_outerwear items (upper @ sh) r2 = Inr ((upper @ sh) @ ow, r3)"
      "length ow \<le> 1" "set ow \<subseteq> set items" "\<forall>x \<in> set ow. type x = JACKET"
    using choose_outerwear_ok[of items "upper @ sh" r2] by blast
  have "create_outfit_combination items r = Inr (upper @ sh @ ow, r3)"
    using upper(1) sh(1) ow(1) by (simp add: create_outfit_combination_def rbind_def)
  moreover have "set (upper @ sh @ ow) \<subseteq> set items" using upper(2) sh(3) ow(3) by simp
  ultimately show ?thesis using upper(3) sh(2,4) ow(2,4) by blast
qed

lemma outfit_counts:
  assumes "(\<exists>d. upper = [d] \<and> type d = DRESS) \<or>
        (\<exists>ts bs. upper = ts @ bs
           \<and> length ts \<le> 1 \<and> (\<forall>t \<in> set ts. type t \<in> {T_SHIRT, HOODIE, SWEATER})
           \<and> length bs \<le> 1 \<and> (\<forall>b \<in> set bs. type b \<in> {JEANS, SHORTS, PANTS}))"
    and "length sh \<le> 1" "\<forall>x \<in> set sh. type x \<in> {SNEAKERS, BOOTS, SANDALS}"
    and "length ow \<le> 1" "\<forall>x \<in> set ow. type x = JACKET"
  shows "length (filter (\<lambda>i. type i \<in> set [T_SHIRT, HOODIE, SWEATER, DRESS]) (upper @ sh @ ow)) \<le> 1"
    and "length (filter (\<lambda>i. type i \<in> set [JEANS, SHORTS, PANTS]) (upper @ sh @ ow)) \<le> 1"
    and "length (filter (\<lambda>i. type i \<in> set [SNEAKERS, BOOTS, SANDALS]) (upper @ sh @ ow)) \<le> 1"
    and "length (filter (\<lambda>i. type i \<in> set [JACKET]) (upper @ sh @ ow)) \<le> 1"
    and "filter (\<lambda>i. type i \<in> set [DRESS]) (upper @ sh @ ow) \<noteq> [] \<Longrightarrow>
         filter (\<lambda>i. type i \<in> set [T_SHIRT, HOODIE, SWEATER, JEANS, SHORTS, PANTS]) (upper @ sh @ ow) = []"
proof -
  from assms(2) have sh: "sh = [] \<or> (\<exists>x. sh = [x])" by (rule short_list)
  from assms(4) have ow: "ow = [] \<or> (\<exists>x. ow = [x])" by (rule short_list)
  from assms(1) have upper: "(\<exists>d. upper = [d] \<and> type d = DRESS) \<or> upper = []
      \<or> (\<exists>t. upper = [t] \<and> type t \<in> {T_SHIRT, HOODIE, SWEATER})
      \<or> (\<exists>b. upper = [b] \<and> type b \<in> {JEANS, SHORTS, PANTS})
      \<or> (\<exists>t b. upper = [t, b] \<and> type t \<in> {T_SHIRT, HOODIE, SWEATER} \<and> type b \<in> {JEANS, SHORTS, PANTS})"
  proof
    assume "\<exists>d. upper = [d] \<and> type d = DRESS"
    then show ?thesis by blast
  next
    assume "\<exists>ts bs. upper = ts @ bs
           \<and> length ts \<le> 1 \<and> (\<forall>t \<in> set ts. type t \<in> {T_SHIRT, HOODIE, SWEATER})
           \<and> length bs \<le> 1 \<and> (\<forall>b \<in> set bs. type b \<in> {JEANS, SHORTS, PANTS})"
    then obtain ts bs where tb: "upper = ts @ bs" "length ts \<le> 1"
        "\<forall>t \<in> set ts. type t \<in> {T_SHIRT, HOODIE, SWEATER}"
        "length bs \<le> 1" "\<forall>b \<in> set bs. type b \<in> {JEANS, SHORTS, PANTS}"
      by blast
    from tb(2) have "ts = [] \<or> (\<exists>x. ts = [x])" by (rule short_list)
    moreover from tb(4) have "bs = [] \<or> (\<exists>x. bs = [x])" by (rule short_list)
    ultimately show ?thesis using tb(1,3,5) by auto
  qed
  show "length (filter (\<lambda>i. type i \<in> set [T_SHIRT, HOODIE, SWEATER, DRESS]) (upper @ sh @ ow)) \<le> 1"
    using upper sh ow assms(3,5) by auto
  show "length (filter (\<lambda>i. type i \<in> set [JEANS, SHORTS, PANTS]) (upper @ sh @ ow)) \<le> 1"
    using upper sh ow assms(3,5) by auto
  show "length (filter (\<lambda>i. type i \<in> set [SNEAKERS, BOOTS, SANDALS]) (upper @ sh @ ow)) \<le> 1"
    using upper sh ow assms(3,5) by auto
  show "length (filter (\<lambda>i. type i \<in> set [JACKET]) (upper @ sh @ ow)) \<le> 1"
    using upper sh ow assms(3,5) by auto
  show "filter (\<lambda>i. type i \<in> set [T_SHIRT, HOODIE, SWEATER, JEANS, SHORTS, PANTS]) (upper @ sh @ ow) = []"
    if "filter (\<lambda>i. type i \<in> set [DRESS]) (upper @ sh @ ow) \<noteq> []"
    using that upper sh ow assms(3,5) by auto
qed

lemma ClothingType_value_inj: "ClothingType_value a = ClothingType_value b \<Longrightarrow> a = b"
  by (cases a; cases b; simp)

lemma details_filter:
  "filter (\<lambda>d. d_type d \<in> set (map ClothingType_value ts)) (map item_details outfit)
     = map item_details (filter (\<lambda>i. type i \<in> set ts) outfit)"
proof -
  have eq: "(ClothingType_value (type i) \<in> ClothingType_value ` set ts) = (type i \<in> set ts)" for i
    using ClothingType_value_inj by auto
  show ?thesis by (simp add: filter_map comp_def item_details_def eq)
qed

lemma filter_items_by_vibe_subset: "set (filter_items_by_vibe items vibe) \<subseteq> set items"
  by (auto simp: filter_items_by_vibe_def Let_def)

lemma filter_items_by_weather_suits:
  "i \<in> set (filter_items_by_weather wardrobe w) \<Longrightarrow> w \<in> set (weather_suitability i)"
  by (simp add: filter_items_by_weather_def)

lemma calculate_outfit_confidence_ok:
  "calculate_outfit_confidence outfit w vibe =
     Inr (if outfit = [] then 0
          else of_nat (length (filter (\<lambda>item. w \<in> set (weather_suitability item)) outfit))
               / of_nat (length outfit))"
  by (simp add: calculate_outfit_confidence_def truediv_def)

lemma suggest_outfit_ok:
  "\<exists>upper sh ow r'.
     create_outfit_combination
       (filter_items_by_vibe (filter_items_by_weather wardrobe (weather_enum_of weather)) (lower vibe)) r
       = Inr (upper @ sh @ ow, r')
     \<and> suggest_outfit wardrobe weather vibe occasion r =
         Inr (\<lparr>s_outfit = map name (upper @ sh @ ow),
               s_items_details = map item_details (upper @ sh @ ow),
               s_reasoning = generate_outfit_reasoning (upper @ sh @ ow) weather vibe,
               s_weather = weather, s_vibe = vibe,
               s_confidence =
                 (if upper @ sh @ ow = [] then 0
                  else of_nat (length (filter (\<lambda>item. weather_enum_of weather \<in> set (weather_suitability item))
                                 (upper @ sh @ ow)))
                       / of_nat (length (upper @ sh @ ow)))\<rparr>, r')
     \<and> (\<forall>i \<in> set (upper @ sh @ ow). weather_enum_of weather \<in> set (weather_suitability i))
     \<and> ((\<exists>d. upper = [d] \<and> type d = DRESS) \<or>
        (\<exists>ts bs. upper = ts @ bs
           \<and> length ts \<le> 1 \<and> (\<forall>t \<in> set ts. type t \<in> {T_SHIRT, HOODIE, SWEATER})
           \<and> length bs \<le> 1 \<and> (\<forall>b \<in> set bs. type b \<in> {JEANS, SHORTS, PANTS})))
     \<and> length sh \<le> 1 \<and> (\<forall>x \<in> set sh. type x \<in> {SNEAKERS, BOOTS, SANDALS})
     \<and> length ow \<le> 1 \<and> (\<forall>x \<in> set ow. type x = JACKET)"
proof -
  define cands where "cands =
    filter_items_by_vibe (filter_items_by_weather wardrobe (weather_enum_of weather)) (lower vibe)"
  obtain upper sh ow r' where c: "create_outfit_combination cands r = Inr (upper @ sh @ ow, r')"
     "set (upper @ sh @ ow) \<subseteq> set cands"
     "(\<exists>d. upper = [d] \<and> type d = DRESS) \<or>
        (\<exists>ts bs. upper = ts @ bs
           \<and> length ts \<le> 1 \<and> (\<forall>t \<in> set ts. type t \<in> {T_SHIRT, HOODIE, SWEATER})
           \<and> length bs \<le> 1 \<and> (\<forall>b \<in> set bs. type b \<in> {JEANS, SHORTS, PANTS}))"
     "length sh \<le> 1" "\<forall>x \<in> set sh. type x \<in> {SNEAKERS, BOOTS, SANDALS}"
     "length ow \<le> 1" "\<forall>x \<in> set ow. type x = JACKET"
    using create_outfit_combination_ok[of cands r] by blast
  have "set cands \<subseteq> set (filter_items_by_weather wardrobe (weather_enum_of weather))"
    unfolding cands_def by (rule filter_items_by_vibe_subset)
  with c(2) have w: "\<forall>i \<in> set (upper @ sh @ ow). weather_enum_of weather \<in> set (weather_suitability i)"
    using filter_items_by_weather_suits by blast
  have "suggest_outfit wardrobe weather vibe occasion r =
         Inr (\<lparr>s_outfit = map name (upper @ sh @ ow),
               s_items_details = map item_details (upper @ sh @ ow),
               s_reasoning = generate_outfit_reasoning (upper @ sh @ ow) weather vibe,
               s_weather = weather, s_vibe = vibe,
               s_confidence =
                 (if upper @ sh @ ow = [] then 0
                  else of_nat (length (filter (\<lambda>item. weather_enum_of weather \<in> set (weather_suitability item))
                                 (upper @ sh @ ow)))
                       / of_nat (length (upper @ sh @ ow)))\<rparr>, r')"
    unfolding suggest_outfit_def Let_def rbind_def cands_def[symmetric] c(1)
      calculate_outfit_confidence_ok by simp
  with c w show ?thesis unfolding cands_def by blast
qed

lemma all_suit_confidence:
  assumes "\<forall>i \<in> set outfit. w \<in> set (weather_suitability i)"
  shows "(if outfit = [] then (0::rat)
          else of_nat (length (filter (\<lambda>item. w \<in> set (weather_suitability item)) outfit))
               / of_nat (length outfit)) = (if outfit = [] then 0 else 1)"
proof -
  from assms have "filter (\<lambda>item. w \<in> set (weather_suitability item)) outfit = outfit"
    by (simp add: filter_id_conv)
  then show ?thesis by simp
qed

text \<open>
  C1. The vibe filter never empties a non-empty candidate list. Its result is the
  strictly filtered list when that is non-empty; otherwise, for the vibes
  \<open>professional\<close> and \<open>business\<close>, the candidates of formality 6 or more when there
  are any (Fallback A); otherwise the candidate list unchanged (Fallback B).
\<close>

theorem vibe_filter_never_empties:
  assumes "items \<noteq> []"
  shows "filter_items_by_vibe items vibe \<noteq> []
     \<and> filter_items_by_vibe items vibe =
         (if filter (passes_vibe_rules (lookup_vibe_rules vibe)) items \<noteq> []
          then filter (passes_vibe_rules (lookup_vibe_rules vibe)) items
          else if vibe \<in> set [''professional'', ''business'']
                  \<and> filter (\<lambda>item. formality_level item \<ge> 6) items \<noteq> []
          then filter (\<lambda>item. formality_level item \<ge> 6) items
          else items)"
proof -
  let ?strict = "filter (passes_vibe_rules (lookup_vibe_rules vibe)) items"
  let ?relaxed = "filter (\<lambda>item. formality_level item \<ge> 6) items"
  have eq: "filter_items_by_vibe items vibe =
      (if ?strict \<noteq> [] then ?strict
       else if vibe \<in> set [''professional'', ''business''] \<and> ?relaxed \<noteq> [] then ?relaxed
       else items)"
    by (cases "?strict = []"; cases "?relaxed = []";
        cases "vibe \<in> set [''professional'', ''business'']";
        simp add: filter_items_by_vibe_def Let_def)
  have "(if ?strict \<noteq> [] then ?strict
       else if vibe \<in> set [''professional'', ''business''] \<and> ?relaxed \<noteq> [] then ?relaxed
       else items) \<noteq> []"
    using assms by (cases "?strict = []"; cases "?relaxed = []"; simp)
  with eq show ?thesis by simp
qed

theorem vibe_filter_never_empties_witness:
  "filter (passes_vibe_rules (lookup_vibe_rules ''business''))
       (filter_items_by_weather initialize_sample_wardrobe HOT) = []
   \<and> filter_items_by_vibe (filter_items_by_weather initialize_sample_wardrobe HOT) ''business'' \<noteq> []
   \<and> map name (filter_items_by_vibe (filter_items_by_weather initialize_sample_wardrobe HOT) ''business'')
       = [''Summer Dress'']"
proof -
  have h: "filter_items_by_weather initialize_sample_wardrobe HOT \<noteq> []" by code_simp
  have s: "filter (passes_vibe_rules (lookup_vibe_rules ''business''))
       (filter_items_by_weather initialize_sample_wardrobe HOT) = []" by code_simp
  have e: "map name (filter_items_by_vibe (filter_items_by_weather initialize_sample_wardrobe HOT) ''business'')
       = [''Summer Dress'']" by code_simp
  from vibe_filter_never_empties[OF h, of "''business''"]
  have a: "filter_items_by_vibe (filter_items_by_weather initialize_sample_wardrobe HOT) ''business'' \<noteq> []"
    by (rule conjunct1)
  from s a e show ?thesis by blast
qed

text \<open>
  C2. For every wardrobe, weather, vibe, occasion and random source, \<open>suggest_outfit\<close>
  returns an outfit with at most one item that is a top or a dress (so never a dress
  together with a top), at most one bottom, at most one pair of shoes and at most one
  jacket; when it has a dress it has no top and no bottom.
\<close>

theorem outfit_composition:
  "\<exists>res r'. suggest_outfit wardrobe weather vibe occasion r = Inr (res, r')
     \<and> length (filter (\<lambda>d. d_type d \<in> set [''t-shirt'', ''hoodie'', ''sweater'', ''dress''])
                 (s_items_details res)) \<le> 1
     \<and> length (filter (\<lambda>d. d_type d \<in> set [''jeans'', ''shorts'', ''pants'']) (s_items_details res)) \<le> 1
     \<and> length (filter (\<lambda>d. d_type d \<in> set [''sneakers'', ''boots'', ''sandals''])
                 (s_items_details res)) \<le> 1
     \<and> length (filter (\<lambda>d. d_type d \<in> set [''jacket'']) (s_items_details res)) \<le> 1
     \<and> (filter (\<lambda>d. d_type d \<in> set [''dress'']) (s_items_details res) \<noteq> [] \<longrightarrow>
          filter (\<lambda>d. d_type d \<in> set [''t-shirt'', ''hoodie'', ''sweater'', ''jeans'', ''shorts'', ''pants''])
            (s_items_details res) = [])"
proof -
  obtain upper sh ow r' res where
    res: "suggest_outfit wardrobe weather vibe occasion r = Inr (res, r')"
      "s_items_details res = map item_details (upper @ sh @ ow)"
    and shape: "(\<exists>d. upper = [d] \<and> type d = DRESS) \<or>
        (\<exists>ts bs. upper = ts @ bs
           \<and> length ts \<le> 1 \<and> (\<forall>t \<in> set ts. type t \<in> {T_SHIRT, HOODIE, SWEATER})
           \<and> length bs \<le> 1 \<and> (\<forall>b \<in> set bs. type b \<in> {JEANS, SHORTS, PANTS}))"
      "length sh \<le> 1" "\<forall>x \<in> set sh. type x \<in> {SNEAKERS, BOOTS, SANDALS}"
      "length ow \<le> 1" "\<forall>x \<in> set ow. type x = JACKET"
    using suggest_outfit_ok[of wardrobe weather vibe r occasion] by force
  note counts = outfit_counts[OF shape]
  have s1: "[''t-shirt'', ''hoodie'', ''sweater'', ''dress'']
      = map ClothingType_value [T_SHIRT, HOODIE, SWEATER, DRESS]" by simp
  have s2: "[''jeans'', ''shorts'', ''pants''] = map ClothingType_value [JEANS, SHORTS, PANTS]" by simp
  have s3: "[''sneakers'', ''boots'', ''sandals''] = map ClothingType_value [SNEAKERS, BOOTS, SANDALS]"
    by simp
  have s4: "[''jacket''] = map ClothingType_value [JACKET]" by simp
  have s5: "[''dress''] = map ClothingType_value [DRESS]" by simp
  have s6: "[''t-shirt'', ''hoodie'', ''sweater'', ''jeans'', ''shorts'', ''pants'']
      = map ClothingType_value [T_SHIRT, HOODIE, SWEATER, JEANS, SHORTS, PANTS]" by simp
  have c1: "length (filter (\<lambda>d. d_type d \<in> set [''t-shirt'', ''hoodie'', ''sweater'', ''dress''])
                 (s_items_details res)) \<le> 1"
    unfolding res(2) s1 details_filter using counts(1) by simp
  have c2: "length (filter (\<lambda>d. d_type d \<in> set [''jeans'', ''shorts'', ''pants'']) (s_items_details res)) \<le> 1"
    unfolding res(2) s2 details_filter using counts(2) by simp
  have c3: "length (filter (\<lambda>d. d_type d \<in> set [''sneakers'', ''boots'', ''sandals''])
                 (s_items_details res)) \<le> 1"
    unfolding res(2) s3 details_filter using counts(3) by simp
  have c4: "length (filter (\<lambda>d. d_type d \<in> set [''jacket'']) (s_items_details res)) \<le> 1"
    unfolding res(2) s4 details_filter using counts(4) by simp
  have c5: "filter (\<lambda>d. d_type d \<in> set [''dress'']) (s_items_details res) \<noteq> [] \<longrightarrow>
          filter (\<lambda>d. d_type d \<in> set [''t-shirt'', ''hoodie'', ''sweater'', ''jeans'', ''shorts'', ''pants''])
            (s_items_details res) = []"
    unfolding res(2) s5 s6 details_filter using counts(5) by simp
  from res(1) c1 c2 c3 c4 c5 show ?thesis by blast
qed

theorem outfit_composition_witness:
  "\<exists>res r'. suggest_outfit initialize_sample_wardrobe ''hot'' ''casual'' ''general'' (\<lambda>n. 0) = Inr (res, r')
     \<and> filter (\<lambda>d. d_type d \<in> set [''dress'']) (s_items_details res) \<noteq> []
     \<and> filter (\<lambda>d. d_type d \<in> set [''t-shirt'', ''hoodie'', ''sweater'', ''jeans'', ''shorts'', ''pants''])
            (s_items_details res) = []"
proof -
  have ev: "case suggest_outfit initialize_sample_wardrobe ''hot'' ''casual'' ''general'' (\<lambda>n. 0) of
        Inl e \<Rightarrow> False
      | Inr (res, r') \<Rightarrow> filter (\<lambda>d. d_type d \<in> set [''dress'']) (s_items_details res) \<noteq> []"
    by code_simp
  from outfit_composition[of initialize_sample_wardrobe "''hot''" "''casual''" "''general''" "\<lambda>n. 0"]
  obtain res r' where
    r: "suggest_outfit initialize_sample_wardrobe ''hot'' ''casual'' ''general'' (\<lambda>n. 0) = Inr (res, r')"
    and imp: "filter (\<lambda>d. d_type d \<in> set [''dress'']) (s_items_details res) \<noteq> [] \<longrightarrow>
          filter (\<lambda>d. d_type d \<in> set [''t-shirt'', ''hoodie'', ''sweater'', ''jeans'', ''shorts'', ''pants''])
            (s_items_details res) = []"
    by blast
  from ev r have d: "filter (\<lambda>d. d_type d \<in> set [''dress'']) (s_items_details res) \<noteq> []" by simp
  with imp r show ?thesis by blast
qed

text \<open>
  C3. The confidence returned by \<open>suggest_outfit\<close> is 0 for the empty outfit and
  otherwise the number of chosen items whose weather suitability contains the requested
  band, divided by the number of chosen items. It lies between 0 and 1, and it is 0
  exactly when the outfit is empty.
\<close>

theorem outfit_confidence_fraction:
  "\<exists>outfit res r'.
     create_outfit_combination
       (filter_items_by_vibe (filter_items_by_weather wardrobe (weather_enum_of weather)) (lower vibe)) r
       = Inr (outfit, r')
     \<and> suggest_outfit wardrobe weather vibe occasion r = Inr (res, r')
     \<and> s_outfit res = map name outfit
     \<and> s_confidence res =
         (if outfit = [] then 0
          else of_nat (length (filter (\<lambda>item. weather_enum_of weather \<in> set (weather_suitability item)) outfit))
               / of_nat (length outfit))
     \<and> 0 \<le> s_confidence res \<and> s_confidence res \<le> 1
     \<and> (s_confidence res = 0) = (s_outfit res = [])"
proof -
  obtain upper sh ow r' where
    c: "create_outfit_combination
       (filter_items_by_vibe (filter_items_by_weather wardrobe (weather_enum_of weather)) (lower vibe)) r
       = Inr (upper @ sh @ ow, r')"
    and s: "suggest_outfit wardrobe weather vibe occasion r =
         Inr (\<lparr>s_outfit = map name (upper @ sh @ ow),
               s_items_details = map item_details (upper @ sh @ ow),
               s_reasoning = generate_outfit_reasoning (upper @ sh @ ow) weather vibe,
               s_weather = weather, s_vibe = vibe,
               s_confidence =
                 (if upper @ sh @ ow = [] then 0
                  else of_nat (length (filter (\<lambda>item. weather_enum_of weather \<in> set (weather_suitability item))
                                 (upper @ sh @ ow)))
                       / of_nat (length (upper @ sh @ ow)))\<rparr>, r')"
    and w: "\<forall>i \<in> set (upper @ sh @ ow). weather_enum_of weather \<in> set (weather_suitability i)"
    using suggest_outfit_ok[of wardrobe weather vibe r occasion] by blast
  define outfit where "outfit = upper @ sh @ ow"
  define conf :: rat where "conf =
     (if outfit = [] then 0
      else of_nat (length (filter (\<lambda>item. weather_enum_of weather \<in> set (weather_suitability item)) outfit))
           / of_nat (length outfit))"
  have one: "conf = (if outfit = [] then 0 else 1)"
    unfolding conf_def using w[folded outfit_def] by (rule all_suit_confidence)
  define res where "res = \<lparr>s_outfit = map name outfit,
               s_items_details = map item_details outfit,
               s_reasoning = generate_outfit_reasoning outfit weather vibe,
               s_weather = weather, s_vibe = vibe, s_confidence = conf\<rparr>"
  have s': "suggest_outfit wardrobe weather vibe occasion r = Inr (res, r')"
    using s unfolding res_def conf_def outfit_def by simp
  have "s_outfit res = map name outfit" "s_confidence res = conf" by (simp_all add: res_def)
  moreover have "0 \<le> conf" "conf \<le> 1" "(conf = 0) = (map name outfit = [])"
    unfolding one by simp_all
  ultimately show ?thesis using c[folded outfit_def] s' conf_def by metis
qed

text \<open>
  C10. Whenever \<open>suggest_outfit\<close> returns a non-empty outfit, its confidence is 1:
  every chosen item comes from the weather-filtered candidates.
\<close>

theorem nonempty_outfit_confidence_one:
  "\<exists>res r'. suggest_outfit wardrobe weather vibe occasion r = Inr (res, r')
     \<and> (s_outfit res \<noteq> [] \<longrightarrow> s_confidence res = 1)"
proof -
  obtain upper sh ow r' where
    s: "suggest_outfit wardrobe weather vibe occasion r =
         Inr (\<lparr>s_outfit = map name (upper @ sh @ ow),
               s_items_details = map item_details (upper @ sh @ ow),
               s_reasoning = generate_outfit_reasoning (upper @ sh @ ow) weather vibe,
               s_weather = weather, s_vibe = vibe,
               s_confidence =
                 (if upper @ sh @ ow = [] then 0
                  else of_nat (length (filter (\<lambda>item. weather_enum_of weather \<in> set (weather_suitability item))
                                 (upper @ sh @ ow)))
                       / of_nat (length (upper @ sh @ ow)))\<rparr>, r')"
    and w: "\<forall>i \<in> set (upper @ sh @ ow). weather_enum_of weather \<in> set (weather_suitability i)"
    using suggest_outfit_ok[of wardrobe weather vibe r occasion] by blast
  have "suggest_outfit wardrobe weather vibe occasion r =
         Inr (\<lparr>s_outfit = map name (upper @ sh @ ow),
               s_items_details = map item_details (upper @ sh @ ow),
               s_reasoning = generate_outfit_reasoning (upper @ sh @ ow) weather vibe,
               s_weather = weather, s_vibe = vibe,
               s_confidence = (if upper @ sh @ ow = [] then 0 else 1)\<rparr>, r')"
    using s unfolding all_suit_confidence[OF w] .
  then show ?thesis by auto
qed

theorem nonempty_outfit_confidence_one_witness:
  "\<exists>res r'. suggest_outfit initialize_sample_wardrobe ''mild'' ''business'' ''general'' (\<lambda>n. 0) = Inr (res, r')
     \<and> s_outfit res \<noteq> [] \<and> s_confidence res = 1"
proof -
  have ev: "case suggest_outfit initialize_sample_wardrobe ''mild'' ''business'' ''general'' (\<lambda>n. 0) of
        Inl e \<Rightarrow> False
      | Inr (res, r') \<Rightarrow> s_outfit res \<noteq> []"
    by code_simp
  from nonempty_outfit_confidence_one[of initialize_sample_wardrobe "''mild''" "''business''" "''general''" "\<lambda>n. 0"]
  obtain res r' where
    r: "suggest_outfit initialize_sample_wardrobe ''mild'' ''business'' ''general'' (\<lambda>n. 0) = Inr (res, r')"
    and imp: "s_outfit res \<noteq> [] \<longrightarrow> s_confidence res = 1"
    by blast
  from ev r have "s_outfit res \<noteq> []" by simp
  with imp r show ?thesis by blast
qed

lemma weather_enum_of_unrecognized:
  assumes "lower weather \<notin> set (map WeatherType_value WeatherType_members)"
  shows "weather_enum_of weather = MILD"
proof -
  from assms have "\<forall>w \<in> set WeatherType_members. WeatherType_value w \<noteq> lower weather"
    by force
  then have "WeatherType_call (lower weather) = None"
    unfolding WeatherType_call_def find_None_iff by blast
  then show ?thesis by (simp add: weather_enum_of_def)
qed

lemma weather_enum_of_mild: "weather_enum_of ''mild'' = MILD"
  by code_simp

lemma suggest_outfit_same_band:
  assumes "weather_enum_of w1 = weather_enum_of w2"
  shows "\<exists>res1 res2 r'. suggest_outfit wardrobe w1 vibe occasion r = Inr (res1, r')
          \<and> suggest_outfit wardrobe w2 vibe occasion r = Inr (res2, r')
          \<and> s_outfit res1 = s_outfit res2 \<and> s_items_details res1 = s_items_details res2
          \<and> s_confidence res1 = s_confidence res2 \<and> s_weather res1 = w1"
proof -
  obtain u1 sh1 ow1 r1 where
    c1: "create_outfit_combination
       (filter_items_by_vibe (filter_items_by_weather wardrobe (weather_enum_of w1)) (lower vibe)) r
       = Inr (u1 @ sh1 @ ow1, r1)"
    and s1: "suggest_outfit wardrobe w1 vibe occasion r =
         Inr (\<lparr>s_outfit = map name (u1 @ sh1 @ ow1),
               s_items_details = map item_details (u1 @ sh1 @ ow1),
               s_reasoning = generate_outfit_reasoning (u1 @ sh1 @ ow1) w1 vibe,
               s_weather = w1, s_vibe = vibe,
               s_confidence =
                 (if u1 @ sh1 @ ow1 = [] then 0
                  else of_nat (length (filter (\<lambda>item. weather_enum_of w1 \<in> set (weather_suitability item))
                                 (u1 @ sh1 @ ow1)))
                       / of_nat (length (u1 @ sh1 @ ow1)))\<rparr>, r1)"
    using suggest_outfit_ok[of wardrobe w1 vibe r occasion] by blast
  obtain u2 sh2 ow2 r2 where
    c2: "create_outfit_combination
       (filter_items_by_vibe (filter_items_by_weather wardrobe (weather_enum_of w2)) (lower vibe)) r
       = Inr (u2 @ sh2 @ ow2, r2)"
    and s2: "suggest_outfit wardrobe w2 vibe occasion r =
         Inr (\<lparr>s_outfit = map name (u2 @ sh2 @ ow2),
               s_items_details = map item_details (u2 @ sh2 @ ow2),
               s_reasoning = generate_outfit_reasoning (u2 @ sh2 @ ow2) w2 vibe,
               s_weather = w2, s_vibe = vibe,
               s_confidence =
                 (if u2 @ sh2 @ ow2 = [] then 0
                  else of_nat (length (filter (\<lambda>item. weather_enum_of w2 \<in> set (weather_suitability item))
                                 (u2 @ sh2 @ ow2)))
                       / of_nat (length (u2 @ sh2 @ ow2)))\<rparr>, r2)"
    using suggest_outfit_ok[of wardrobe w2 vibe r occasion] by blast
  from c1 c2 assms have same: "u1 @ sh1 @ ow1 = u2 @ sh2 @ ow2" "r1 = r2" by simp_all
  show ?thesis unfolding s1 s2 using same assms by simp
qed

text \<open>
  C6. A weather string whose lower-cased text is none of the seven band tokens is
  normalised to the band \<open>mild\<close>: \<open>suggest_outfit\<close> returns without an exception,
  with the outfit, the item details and the confidence it returns for the weather
  \<open>mild\<close> on the same random source, and it echoes the weather string as given.
\<close>

theorem unrecognized_weather_defaults_to_mild:
  assumes "lower weather \<notin> set (map WeatherType_value WeatherType_members)"
  shows "weather_enum_of weather = MILD
     \<and> (\<exists>res res_m r'. suggest_outfit wardrobe weather vibe occasion r = Inr (res, r')
          \<and> suggest_outfit wardrobe ''mild'' vibe occasion r = Inr (res_m, r')
          \<and> s_outfit res = s_outfit res_m \<and> s_items_details res = s_items_details res_m
          \<and> s_confidence res = s_confidence res_m \<and> s_weather res = weather)"
proof -
  have m: "weather_enum_of weather = MILD" using assms by (rule weather_enum_of_unrecognized)
  then have "weather_enum_of weather = weather_enum_of ''mild''" by (simp add: weather_enum_of_mild)
  from suggest_outfit_same_band[OF this, of wardrobe vibe occasion r] m show ?thesis by blast
qed

theorem unrecognized_weather_defaults_to_mild_witness:
  "lower ''Tornado'' \<notin> set (map WeatherType_value WeatherType_members)
   \<and> weather_enum_of ''Tornado'' = MILD
   \<and> (\<exists>res r'. suggest_outfit initialize_sample_wardrobe ''Tornado'' ''business'' ''general'' (\<lambda>n. 0)
          = Inr (res, r')
        \<and> s_outfit res = [''White Dress Shirt'', ''Black Dress Pants'', ''Black Oxford Shoes'', ''Navy Blazer'']
        \<and> s_confidence res = 1)"
proof -
  have h: "lower ''Tornado'' \<notin> set (map WeatherType_value WeatherType_members)" by code_simp
  have ev: "case suggest_outfit initialize_sample_wardrobe ''mild'' ''business'' ''general'' (\<lambda>n. 0) of
        Inl e \<Rightarrow> False
      | Inr (res, r') \<Rightarrow> s_outfit res =
            [''White Dress Shirt'', ''Black Dress Pants'', ''Black Oxford Shoes'', ''Navy Blazer'']
          \<and> s_confidence res = 1"
    by code_simp
  from unrecognized_weather_defaults_to_mild[OF h, of initialize_sample_wardrobe "''business''" "''general''" "\<lambda>n. 0"]
  obtain res res_m r' where m: "weather_enum_of ''Tornado'' = MILD"
    and r: "suggest_outfit initialize_sample_wardrobe ''Tornado'' ''business'' ''general'' (\<lambda>n. 0) = Inr (res, r')"
    and rm: "suggest_outfit initialize_sample_wardrobe ''mild'' ''business'' ''general'' (\<lambda>n. 0) = Inr (res_m, r')"
    and eq: "s_outfit res = s_outfit res_m" "s_confidence res = s_confidence res_m"
    by blast
  from ev rm have "s_outfit res_m =
            [''White Dress Shirt'', ''Black Dress Pants'', ''Black Oxford Shoes'', ''Navy Blazer'']"
      "s_confidence res_m = 1" by simp_all
  with eq have "s_outfit res =
            [''White Dress Shirt'', ''Black Dress Pants'', ''Black Oxford Shoes'', ''Navy Blazer'']"
      "s_confidence res = 1" by simp_all
  with h m r show ?thesis by blast
qed

text \<open>
  C9. The labeler and \<open>suggest_outfit\<close> return a result, never an exception, on every
  description, wardrobe, weather, vibe, occasion and random source. The model raises
  where the source can (a random pick from an empty list, a division by zero); the
  guards keep those branches out of reach: the word count is replaced by 1 when it is
  0, the confidence of the empty outfit is returned before the division, and every
  random pick is taken from a list checked to be non-empty.
\<close>

theorem core_returns_normally:
  "(\<exists>l. label_clothing_from_text description = Inr l)
   \<and> (\<exists>c. calculate_confidence (lower description) = Inr c)
   \<and> (\<exists>res r'. suggest_outfit wardrobe weather vibe occasion r = Inr (res, r'))
   \<and> (\<exists>outfit r'. create_outfit_combination items r = Inr (outfit, r'))
   \<and> (\<exists>c. calculate_outfit_confidence outfit' w vibe = Inr c)
   \<and> calculate_outfit_confidence [] w vibe = Inr 0"
proof -
  have 1: "\<exists>l. label_clothing_from_text description = Inr l"
    using label_type[of description] by blast
  have 2: "\<exists>c. calculate_confidence (lower description) = Inr c"
    by (rule calculate_confidence_total)
  have 3: "\<exists>res r'. suggest_outfit wardrobe weather vibe occasion r = Inr (res, r')"
    using suggest_outfit_ok[of wardrobe weather vibe r occasion] by blast
  have 4: "\<exists>outfit r'. create_outfit_combination items r = Inr (outfit, r')"
    using create_outfit_combination_ok[of items r] by blast
  have 5: "\<exists>c. calculate_outfit_confidence outfit' w vibe = Inr c"
    by (simp add: calculate_outfit_confidence_ok)
  have 6: "calculate_outfit_confidence [] w vibe = Inr 0"
    by (simp add: calculate_outfit_confidence_ok)
  from 1 2 3 4 5 6 show ?thesis by blast
qed

end
